theory Spec2Isabelle
  imports Complex_Main
begin

section \<open>Agricultural suitability scoring for coordinates in Turkey\<close>

text \<open>
  A shallow embedding of \<^verbatim>\<open>Backend/main.py\<close>. The numbers of the analysis of a
  coordinate are modelled as \<^typ>\<open>real\<close> (the scoring only compares them with constants
  and rounds them); the search for the nearest water source works on floats with their
  infinities and NaN; the suitability score, which the code builds from integer literals,
  is an \<^typ>\<open>int\<close>; dictionaries are maps from key strings or lists of items, and every
  \<^verbatim>\<open>raise\<close> is a value of a sum type.
\<close>

subsection \<open>Category of a score\<close>

definition categorize_suitability :: "int \<Rightarrow> string" where
  "categorize_suitability score =
     (if score \<ge> 80 then ''HIGHLY PRODUCTIVE''
      else if score \<ge> 70 then ''PRODUCTIVE''
      else if score \<ge> 60 then ''MODERATELY PRODUCTIVE''
      else ''LOW PRODUCTIVITY'')"

text \<open>
  The four labels in increasing order of productivity; monotonicity of the category is
  stated with respect to this order. Any other string has rank 0.
\<close>

definition category_rank :: "string \<Rightarrow> nat" where
  "category_rank c =
     (if c = ''HIGHLY PRODUCTIVE'' then 3
      else if c = ''PRODUCTIVE'' then 2
      else if c = ''MODERATELY PRODUCTIVE'' then 1
      else 0)"

subsection \<open>Values, rows and errors\<close>

text \<open>
  A dictionary value is a number or a string. A row is a Python \<^verbatim>\<open>dict\<close> keyed by
  strings. \<^verbatim>\<open>row[k]\<close> raises \<^verbatim>\<open>KeyError\<close> on a missing key, and comparing a string with
  a number raises \<^verbatim>\<open>TypeError\<close>.
\<close>

datatype pyval = Num real | Str string

type_synonym row = "string \<rightharpoonup> pyval"

datatype error = KeyError string | TypeError | ValueError

definition bind_result :: "error + 'a \<Rightarrow> ('a \<Rightarrow> error + 'b) \<Rightarrow> error + 'b" where
  "bind_result r f = (case r of Inl e \<Rightarrow> Inl e | Inr v \<Rightarrow> f v)"

definition getitem :: "row \<Rightarrow> string \<Rightarrow> error + pyval" where
  "getitem row k = (case row k of None \<Rightarrow> Inl (KeyError k) | Some v \<Rightarrow> Inr v)"

definition as_number :: "pyval \<Rightarrow> error + real" where
  "as_number v = (case v of Num r \<Rightarrow> Inr r | Str _ \<Rightarrow> Inl TypeError)"

text \<open>
  An f-string is kept as the sequence of its parts: literal text, a value interpolated
  with \<^verbatim>\<open>{v}\<close>, and a number interpolated with \<^verbatim>\<open>{v:.nf}\<close>. How Python prints a
  float is outside the model, and so are the pictographs that open the detail lines.
\<close>

datatype piece = Lit string | Val pyval | Fixed nat real

type_synonym ftext = "piece list"

text \<open>\<^verbatim>\<open>sep.join(xs)\<close>, for strings and for f-string texts alike.\<close>

fun join :: "'a list \<Rightarrow> 'a list list \<Rightarrow> 'a list" where
  "join sep [] = []"
| "join sep [x] = x"
| "join sep (x # y # ys) = x @ sep @ join sep (y # ys)"

text \<open>
  \<^verbatim>\<open>str(v)\<close>: a string is itself; the text of a number is a parameter \<open>str_num\<close> of the
  model. \<^verbatim>\<open>s.lower()\<close> on the ASCII letters, and the substring test \<^verbatim>\<open>k in s\<close>.
\<close>

definition py_str :: "(real \<Rightarrow> string) \<Rightarrow> pyval \<Rightarrow> string" where
  "py_str str_num v = (case v of Str s \<Rightarrow> s | Num r \<Rightarrow> str_num r)"

definition lower_char :: "char \<Rightarrow> char" where
  "lower_char c =
     (let n = (of_char c :: nat) in if 65 \<le> n \<and> n \<le> 90 then char_of (n + 32) else c)"

definition lower :: "string \<Rightarrow> string" where
  "lower s = map lower_char s"

fun startswith :: "string \<Rightarrow> string \<Rightarrow> bool" where
  "startswith s [] = True"
| "startswith [] (k # ks) = False"
| "startswith (c # cs) (k # ks) = (c = k \<and> startswith cs ks)"

fun contains :: "string \<Rightarrow> string \<Rightarrow> bool" where
  "contains [] k = (k = [])"
| "contains (c # cs) k = (startswith (c # cs) k \<or> contains cs k)"

subsection \<open>The suitability score\<close>

text \<open>
  The running state of \<^verbatim>\<open>calculate_comprehensive_suitability\<close>: the score, the list of
  reasons and the list of detail lines. Each criterion is one block of the function body.
\<close>

type_synonym tally = "int \<times> string list \<times> ftext list"

definition water_criterion :: "row \<Rightarrow> tally \<Rightarrow> error + tally" where
  "water_criterion row t = (case t of (score, reasons, details) \<Rightarrow>
     bind_result (getitem row ''water_distance_km'') (\<lambda>v.
     bind_result (as_number v) (\<lambda>water_dist_km.
       if water_dist_km \<le> 5 then
         bind_result (getitem row ''nearest_water_name'') (\<lambda>n.
           Inr (score + 25, reasons @ [''very close to water''],
                details @ [[Lit ''Water: '', Fixed 1 water_dist_km, Lit ''km ('', Val n,
                            Lit '') - EXCELLENT'']]))
       else if water_dist_km \<le> 10 then
         bind_result (getitem row ''nearest_water_name'') (\<lambda>n.
           Inr (score + 18, reasons @ [''close to water''],
                details @ [[Lit ''Water: '', Fixed 1 water_dist_km, Lit ''km ('', Val n,
                            Lit '') - GOOD'']]))
       else Inr t)))"

definition slope_criterion :: "row \<Rightarrow> tally \<Rightarrow> error + tally" where
  "slope_criterion row t = (case t of (score, reasons, details) \<Rightarrow>
     bind_result (getitem row ''slope_percent'') (\<lambda>v.
     bind_result (as_number v) (\<lambda>slope.
       if slope \<le> 5 then
         Inr (score + 20, reasons @ [''low slope''],
              details @ [[Lit ''Slope: '', Fixed 1 slope, Lit ''% - EXCELLENT'']])
       else if slope \<le> 10 then
         Inr (score + 15, reasons @ [''medium slope''],
              details @ [[Lit ''Slope: '', Fixed 1 slope, Lit ''% - GOOD'']])
       else Inr t)))"

definition elevation_criterion :: "row \<Rightarrow> tally \<Rightarrow> error + tally" where
  "elevation_criterion row t = (case t of (score, reasons, details) \<Rightarrow>
     bind_result (getitem row ''elevation_m'') (\<lambda>v.
     bind_result (as_number v) (\<lambda>elevation.
       if elevation \<le> 800 then
         Inr (score + 15, reasons @ [''low elevation''],
              details @ [[Lit ''Elevation: '', Val v, Lit ''m - EXCELLENT'']])
       else if elevation \<le> 1500 then
         Inr (score + 10, reasons @ [''medium elevation''],
              details @ [[Lit ''Elevation: '', Val v, Lit ''m - GOOD'']])
       else Inr t)))"

definition soil_criterion :: "row \<Rightarrow> tally \<Rightarrow> error + tally" where
  "soil_criterion row t = (case t of (score, reasons, details) \<Rightarrow>
     bind_result (getitem row ''soil_productivity'') (\<lambda>soil_quality.
       if soil_quality = Str ''high'' then
         bind_result (getitem row ''soil_type'') (\<lambda>ty.
         bind_result (getitem row ''soil_ph'') (\<lambda>ph.
           Inr (score + 10, reasons @ [''fertile soil''],
                details @ [[Lit ''Soil: '', Val ty, Lit '' (pH:'', Val ph,
                            Lit '') - EXCELLENT'']])))
       else if soil_quality = Str ''medium-high'' then
         bind_result (getitem row ''soil_type'') (\<lambda>ty.
         bind_result (getitem row ''soil_ph'') (\<lambda>ph.
           Inr (score + 7, reasons @ [''good soil''],
                details @ [[Lit ''Soil: '', Val ty, Lit '' (pH:'', Val ph,
                            Lit '') - GOOD'']])))
       else Inr t))"

definition precipitation_criterion :: "row \<Rightarrow> tally \<Rightarrow> error + tally" where
  "precipitation_criterion row t = (case t of (score, reasons, details) \<Rightarrow>
     bind_result (getitem row ''annual_precipitation_mm'') (\<lambda>v.
     bind_result (as_number v) (\<lambda>precipitation.
       if 400 \<le> precipitation \<and> precipitation \<le> 800 then
         Inr (score + 8, reasons @ [''ideal precipitation''],
              details @ [[Lit ''Precipitation: '', Val v, Lit ''mm - EXCELLENT'']])
       else Inr t)))"

definition sunshine_criterion :: "row \<Rightarrow> tally \<Rightarrow> error + tally" where
  "sunshine_criterion row t = (case t of (score, reasons, details) \<Rightarrow>
     bind_result (getitem row ''sunshine_hours'') (\<lambda>v.
     bind_result (as_number v) (\<lambda>sunshine.
       if 1800 \<le> sunshine \<and> sunshine \<le> 2800 then
         Inr (score + 7, reasons @ [''ideal sunshine''],
              details @ [[Lit ''Sunshine: '', Val v, Lit '' hours - EXCELLENT'']])
       else Inr t)))"

text \<open>
  The landcover bonus reads its key with \<^verbatim>\<open>row.get('landcover_type', '')\<close>, so a missing
  key is the empty string and nothing is raised.
\<close>

definition landcover_keywords :: "string list" where
  "landcover_keywords = [''farm'', ''agricultural'', ''orchard'', ''vineyard'']"

definition landcover_bonus :: "(real \<Rightarrow> string) \<Rightarrow> row \<Rightarrow> tally \<Rightarrow> tally" where
  "landcover_bonus str_num row t = (case t of (score, reasons, details) \<Rightarrow>
     (let lc_type = lower (py_str str_num
                      (case row ''landcover_type'' of None \<Rightarrow> Str [] | Some v \<Rightarrow> v))
      in if list_ex (contains lc_type) landcover_keywords then
           (score + 8, reasons @ [''existing agricultural land''],
            details @ [[Lit ''Landcover: '', Val (Str lc_type), Lit '' - BONUS'']])
         else t))"

text \<open>The reasons that the six criteria before the landcover bonus can give.\<close>

definition criterion_reasons :: "string list" where
  "criterion_reasons =
     [''very close to water'', ''close to water'', ''low slope'', ''medium slope'',
      ''low elevation'', ''medium elevation'', ''fertile soil'', ''good soil'',
      ''ideal precipitation'', ''ideal sunshine'']"

definition criteria :: "(real \<Rightarrow> string) \<Rightarrow> row \<Rightarrow> error + tally" where
  "criteria str_num row =
     bind_result (water_criterion row (0, [], [])) (\<lambda>t.
     bind_result (slope_criterion row t) (\<lambda>t.
     bind_result (elevation_criterion row t) (\<lambda>t.
     bind_result (soil_criterion row t) (\<lambda>t.
     bind_result (precipitation_criterion row t) (\<lambda>t.
     bind_result (sunshine_criterion row t) (\<lambda>t.
       Inr (landcover_bonus str_num row t)))))))"

definition calculate_comprehensive_suitability ::
    "(real \<Rightarrow> string) \<Rightarrow> row \<Rightarrow> error + (int \<times> string \<times> ftext)" where
  "calculate_comprehensive_suitability str_num row =
     bind_result (criteria str_num row) (\<lambda>t. case t of (score, reasons, details) \<Rightarrow>
       Inr (score, join '', '' reasons, join [Lit '' | ''] details))"

subsection \<open>Floats\<close>

text \<open>
  A float is a finite number, an infinity or NaN. The model follows IEEE 754 double
  precision except for rounding: a finite result is kept exact unless its magnitude
  exceeds the largest double, in which case it overflows to an infinity, as in numpy's
  arithmetic, which the coordinates read from a CSV file bring with them. An operation
  with a NaN operand gives NaN, the difference of equal infinities and the product of an
  infinity with zero are NaN, the square root of a negative number is NaN, and every
  comparison with NaN is False.
\<close>

datatype pyfloat = Finite real | PosInf | NegInf | NaN

definition float_max :: real where
  "float_max = (2 - 1 / 2 ^ 52) * 2 ^ 1023"

definition float_result :: "real \<Rightarrow> pyfloat" where
  "float_result x =
     (if float_max < x then PosInf else if x < - float_max then NegInf else Finite x)"

fun fneg :: "pyfloat \<Rightarrow> pyfloat" where
  "fneg (Finite x) = Finite (- x)"
| "fneg PosInf = NegInf"
| "fneg NegInf = PosInf"
| "fneg NaN = NaN"

fun fadd :: "pyfloat \<Rightarrow> pyfloat \<Rightarrow> pyfloat" where
  "fadd (Finite x) (Finite y) = float_result (x + y)"
| "fadd NaN b = NaN"
| "fadd a NaN = NaN"
| "fadd PosInf NegInf = NaN"
| "fadd NegInf PosInf = NaN"
| "fadd PosInf b = PosInf"
| "fadd a PosInf = PosInf"
| "fadd NegInf b = NegInf"
| "fadd a NegInf = NegInf"

definition fsub :: "pyfloat \<Rightarrow> pyfloat \<Rightarrow> pyfloat" where
  "fsub a b = fadd a (fneg b)"

text \<open>The sign of a float that is not NaN, for the product with an infinity.\<close>

fun fsign :: "pyfloat \<Rightarrow> int" where
  "fsign (Finite x) = (if x < 0 then - 1 else if x = 0 then 0 else 1)"
| "fsign PosInf = 1"
| "fsign NegInf = - 1"
| "fsign NaN = 0"

fun fmul :: "pyfloat \<Rightarrow> pyfloat \<Rightarrow> pyfloat" where
  "fmul (Finite x) (Finite y) = float_result (x * y)"
| "fmul NaN b = NaN"
| "fmul a NaN = NaN"
| "fmul a b =
     (if fsign a * fsign b = 0 then NaN else if fsign a * fsign b > 0 then PosInf else NegInf)"

text \<open>\<^verbatim>\<open>x ** 2\<close> and \<^verbatim>\<open>np.sqrt(x)\<close>.\<close>

fun fsquare :: "pyfloat \<Rightarrow> pyfloat" where
  "fsquare (Finite x) = float_result (x ^ 2)"
| "fsquare PosInf = PosInf"
| "fsquare NegInf = PosInf"
| "fsquare NaN = NaN"

fun fsqrt :: "pyfloat \<Rightarrow> pyfloat" where
  "fsqrt (Finite x) = (if x < 0 then NaN else Finite (sqrt x))"
| "fsqrt PosInf = PosInf"
| "fsqrt NegInf = NaN"
| "fsqrt NaN = NaN"

text \<open>The comparison \<^verbatim>\<open>a < b\<close>.\<close>

fun fless :: "pyfloat \<Rightarrow> pyfloat \<Rightarrow> bool" where
  "fless (Finite x) (Finite y) = (x < y)"
| "fless NaN b = False"
| "fless a NaN = False"
| "fless a NegInf = False"
| "fless PosInf b = False"
| "fless NegInf b = True"
| "fless a PosInf = True"


definition is_finite :: "pyfloat \<Rightarrow> bool" where
  "is_finite a = (case a of Finite x \<Rightarrow> True | _ \<Rightarrow> False)"

text \<open>The number that a finite float holds; it is applied to finite floats only.\<close>

definition finite_value :: "pyfloat \<Rightarrow> real" where
  "finite_value a = (case a of Finite x \<Rightarrow> x | _ \<Rightarrow> 0)"

subsection \<open>Nearest water source\<close>

text \<open>
  A water source as the catalog loader builds it: a dictionary with the keys \<^verbatim>\<open>lat\<close>,
  \<^verbatim>\<open>lon\<close>, \<^verbatim>\<open>name\<close>, \<^verbatim>\<open>type\<close> and \<^verbatim>\<open>source\<close>. The result of the search is the
  dictionary with the keys \<^verbatim>\<open>name\<close>, \<^verbatim>\<open>type\<close> and \<^verbatim>\<open>distance_km\<close>.
\<close>

record water_source =
  w_lat :: pyfloat
  w_lon :: pyfloat
  w_name :: string
  w_type :: string
  w_source :: string

record nearest_water =
  near_name :: string
  near_type :: string
  distance_km :: pyfloat

text \<open>The distance of line 172: planar distance in degrees, times 111.\<close>

definition degree_distance_km :: "pyfloat \<Rightarrow> pyfloat \<Rightarrow> water_source \<Rightarrow> pyfloat" where
  "degree_distance_km lat lon water =
     fmul (fsqrt (fadd (fsquare (fsub lat (w_lat water))) (fsquare (fsub lon (w_lon water)))))
          (Finite 111)"

text \<open>
  One iteration of the loop over the water sources. The state is \<open>min_distance\<close>, which
  starts as \<^verbatim>\<open>float('inf')\<close>, and \<open>nearest_water\<close>, which starts as the placeholder.
\<close>

definition consider_water ::
    "pyfloat \<Rightarrow> pyfloat \<Rightarrow> water_source \<Rightarrow> pyfloat \<times> nearest_water
       \<Rightarrow> pyfloat \<times> nearest_water" where
  "consider_water lat lon water st = (case st of (min_distance, nearest) \<Rightarrow>
     (let distance = degree_distance_km lat lon water
      in if fless distance min_distance
         then (distance,
               \<lparr>near_name = w_name water, near_type = w_type water, distance_km = distance\<rparr>)
         else (min_distance, nearest)))"

definition unknown_water :: nearest_water where
  "unknown_water =
     \<lparr>near_name = ''unknown'', near_type = ''unknown'', distance_km = Finite 0\<rparr>"

definition calculate_distance_to_nearest_water ::
    "pyfloat \<Rightarrow> pyfloat \<Rightarrow> water_source list \<Rightarrow> nearest_water" where
  "calculate_distance_to_nearest_water lat lon water_sources =
     snd (fold (consider_water lat lon) water_sources (PosInf, unknown_water))"

text \<open>
  What the search delivers: \<open>i\<close> is the position of the first source at the least
  distance among the sources whose distance from the point is finite. The second predicate
  is the invariant of the loop after the sources \<open>ws\<close> have been visited.
\<close>

definition nearest_at :: "pyfloat \<Rightarrow> pyfloat \<Rightarrow> water_source list \<Rightarrow> nat \<Rightarrow> bool" where
  "nearest_at lat lon ws i \<longleftrightarrow>
     i < length ws
     \<and> (\<exists>d. degree_distance_km lat lon (ws ! i) = Finite d
            \<and> (\<forall>j < length ws. \<forall>e. degree_distance_km lat lon (ws ! j) = Finite e \<longrightarrow> d \<le> e)
            \<and> (\<forall>j < i. \<forall>e. degree_distance_km lat lon (ws ! j) = Finite e \<longrightarrow> d < e))"

definition scan_inv ::
    "pyfloat \<Rightarrow> pyfloat \<Rightarrow> water_source list \<Rightarrow> pyfloat \<times> nearest_water \<Rightarrow> bool" where
  "scan_inv lat lon ws st \<longleftrightarrow>
     ((\<forall>w \<in> set ws. \<not> is_finite (degree_distance_km lat lon w)) \<and> st = (PosInf, unknown_water))
     \<or> (\<exists>i. nearest_at lat lon ws i
           \<and> st = (degree_distance_km lat lon (ws ! i),
                   \<lparr>near_name = w_name (ws ! i), near_type = w_type (ws ! i),
                    distance_km = degree_distance_km lat lon (ws ! i)\<rparr>))"

subsection \<open>Python values and JSON documents\<close>

text \<open>
  The values that the catalog loader handles: what \<^verbatim>\<open>response.json()\<close> and
  \<^verbatim>\<open>json.load\<close> return and what \<^verbatim>\<open>json.dump\<close> is given. A dictionary is the list of
  its items in insertion order, with string keys.
\<close>

datatype pyobj =
    PNone
  | PBool bool
  | PInt int
  | PFloat pyfloat
  | PStr string
  | PList "pyobj list"
  | PDict "(string \<times> pyobj) list"

text \<open>
  Modelled from the spec: the JSON documents and the conversions of \<^verbatim>\<open>json.dump\<close> and
  \<^verbatim>\<open>json.load\<close>, which belong to the Python standard library and not to the repository.
  A document is the abstract syntax of a JSON text; the layout of the text (indentation,
  escapes, the digits of a number) is left to the library, which parses back the document
  it has written. The conversions follow the tables of the library's documentation:
  \<^verbatim>\<open>dict\<close> and object, \<^verbatim>\<open>list\<close> and array, \<^verbatim>\<open>str\<close> and string, \<^verbatim>\<open>int\<close> and \<^verbatim>\<open>float\<close>
  and number, \<^verbatim>\<open>True\<close>, \<^verbatim>\<open>False\<close> and \<^verbatim>\<open>None\<close> and \<^verbatim>\<open>true\<close>, \<^verbatim>\<open>false\<close> and \<^verbatim>\<open>null\<close>.
\<close>

datatype json =
    JNull
  | JBool bool
  | JInt int
  | JReal pyfloat
  | JString string
  | JArray "json list"
  | JObject "(string \<times> json) list"

text \<open>
  \<^verbatim>\<open>d[k] = v\<close> on a dictionary: a present key keeps its place and gets the new value, a
  new key is appended. Loading an object stores its members one after the other, so of a
  repeated name the last value stays.
\<close>

fun dict_set :: "(string \<times> 'v) list \<Rightarrow> string \<Rightarrow> 'v \<Rightarrow> (string \<times> 'v) list" where
  "dict_set [] k v = [(k, v)]"
| "dict_set ((k', v') # d) k v = (if k' = k then (k', v) # d else (k', v') # dict_set d k v)"

definition dict_of :: "(string \<times> 'v) list \<Rightarrow> (string \<times> 'v) list" where
  "dict_of kvs = foldl (\<lambda>d kv. dict_set d (fst kv) (snd kv)) [] kvs"

primrec to_json :: "pyobj \<Rightarrow> json" where
  "to_json PNone = JNull"
| "to_json (PBool b) = JBool b"
| "to_json (PInt i) = JInt i"
| "to_json (PFloat x) = JReal x"
| "to_json (PStr s) = JString s"
| "to_json (PList xs) = JArray (map to_json xs)"
| "to_json (PDict kvs) = JObject (map (map_prod id to_json) kvs)"

primrec from_json :: "json \<Rightarrow> pyobj" where
  "from_json JNull = PNone"
| "from_json (JBool b) = PBool b"
| "from_json (JInt i) = PInt i"
| "from_json (JReal x) = PFloat x"
| "from_json (JString s) = PStr s"
| "from_json (JArray js) = PList (map from_json js)"
| "from_json (JObject kvs) = PDict (dict_of (map (map_prod id from_json) kvs))"

text \<open>
  A Python value is well formed when the keys of each of its dictionaries are distinct, as
  they are in every \<^verbatim>\<open>dict\<close>.
\<close>

primrec well_formed :: "pyobj \<Rightarrow> bool" where
  "well_formed PNone = True"
| "well_formed (PBool b) = True"
| "well_formed (PInt i) = True"
| "well_formed (PFloat x) = True"
| "well_formed (PStr s) = True"
| "well_formed (PList xs) = list_all id (map well_formed xs)"
| "well_formed (PDict kvs) =
     (distinct (map fst kvs) \<and> list_all id (map (\<lambda>kv. snd kv) (map (map_prod id well_formed) kvs)))"

subsection \<open>The water source catalog loader\<close>

text \<open>\<^verbatim>\<open>len(x)\<close> is defined for strings, lists and dictionaries and raises otherwise.\<close>

definition has_len :: "pyobj \<Rightarrow> bool" where
  "has_len x = (case x of PStr s \<Rightarrow> True | PList xs \<Rightarrow> True | PDict kvs \<Rightarrow> True | _ \<Rightarrow> False)"

text \<open>
  The cache file, when it exists, holds a text that parses to a document, or it cannot be
  read or parsed.
\<close>

datatype cache_file = Text json | Unreadable

text \<open>
  The reply of the feature query service. An element has an optional center with \<open>lat\<close>
  and \<open>lon\<close> and the members of its optional \<open>tags\<close> object (none when it is absent). A body
  of any other shape makes the loader raise inside its \<^verbatim>\<open>try\<close>, as does a request that
  fails.
\<close>

record element =
  el_center :: "(json \<times> json) option"
  el_tags :: "(string \<times> json) list"

datatype body = Malformed | Elements "element list"

datatype reply = NoReply | Reply int body

text \<open>\<^verbatim>\<open>d.get(k, fallback)\<close> on a dictionary.\<close>

definition dict_get :: "(string \<times> 'v) list \<Rightarrow> string \<Rightarrow> 'v \<Rightarrow> 'v" where
  "dict_get d k fallback = (case map_of d k of None \<Rightarrow> fallback | Some v \<Rightarrow> v)"

text \<open>The water type that lines 124 to 137 assign from the tags; empty when none applies.\<close>

definition water_type_of :: "(string \<times> pyobj) list \<Rightarrow> string" where
  "water_type_of tags =
     (case map_of tags ''waterway'' of
        Some w \<Rightarrow>
          if w = PStr ''river'' then ''river''
          else if w = PStr ''stream'' then ''stream''
          else if w = PStr ''dam'' then ''dam''
          else []
      | None \<Rightarrow>
          if map_of tags ''natural'' = Some (PStr ''water'') then ''lake''
          else (case map_of tags ''water'' of
                  Some w \<Rightarrow>
                    if w = PStr ''lake'' then ''lake''
                    else if w = PStr ''reservoir'' then ''reservoir''
                    else []
                | None \<Rightarrow> []))"

text \<open>What one iteration of the loop over the elements appends to \<open>water_sources\<close>.\<close>

definition features_of :: "element \<Rightarrow> pyobj list" where
  "features_of e =
     (case el_center e of
        None \<Rightarrow> []
      | Some c \<Rightarrow>
          (let lat = from_json (fst c);
               lon = from_json (snd c);
               tags = dict_of (map (map_prod id from_json) (el_tags e));
               water_type = water_type_of tags;
               name = dict_get tags ''name'' (PStr ''Unnamed'')
           in if water_type \<noteq> [] then
                [PDict [(''lat'', lat), (''lon'', lon), (''name'', name),
                        (''type'', PStr water_type), (''source'', PStr ''OpenStreetMap'')]]
              else []))"

text \<open>
  The cached data, when the cache file exists and lines 77 to 80 run through: the file
  parses and the parsed value has a length (the message that is printed takes it).
\<close>

definition read_cache :: "cache_file option \<Rightarrow> pyobj option" where
  "read_cache disk =
     (case disk of
        Some (Text j) \<Rightarrow>
          (let cached_data = from_json j in if has_len cached_data then Some cached_data else None)
      | _ \<Rightarrow> None)"

text \<open>
  How the write of lines 149 to 153 ends: the document is written; or the file cannot be
  opened and stays as it was; or the dump raises part-way (as for a string that UTF-8
  cannot encode) and leaves a text that does not parse. Either failure is swallowed.
\<close>

datatype write_outcome = Written | Not_Opened | Broken_Off

definition write_cache :: "write_outcome \<Rightarrow> pyobj \<Rightarrow> cache_file option \<Rightarrow> cache_file option" where
  "write_cache outcome water_sources disk =
     (case outcome of
        Written \<Rightarrow> Some (Text (to_json water_sources))
      | Not_Opened \<Rightarrow> disk
      | Broken_Off \<Rightarrow> Some Unreadable)"

text \<open>
  The loader. Its inputs are how a write of the cache file would end, the reply of the
  service and the cache file; it returns the water sources and the cache file afterwards.
  Every failure of the request or of its processing returns the empty list.
\<close>

definition get_all_water_sources_from_osm ::
    "write_outcome \<Rightarrow> reply \<Rightarrow> cache_file option \<Rightarrow> pyobj \<times> cache_file option" where
  "get_all_water_sources_from_osm outcome net disk =
     (case read_cache disk of
        Some cached_data \<Rightarrow> (cached_data, disk)
      | None \<Rightarrow>
          (case net of
             NoReply \<Rightarrow> (PList [], disk)
           | Reply status_code body \<Rightarrow>
               if status_code = 200 then
                 (case body of
                    Malformed \<Rightarrow> (PList [], disk)
                  | Elements elements \<Rightarrow>
                      (let water_sources = PList (concat (map features_of elements))
                       in (water_sources, write_cache outcome water_sources disk)))
               else (PList [], disk)))"

subsection \<open>Estimated attributes\<close>

text \<open>
  \<^verbatim>\<open>np.random.uniform(low, high)\<close> is \<open>low + (high - low) * u\<close> for a sample \<open>u\<close> drawn
  from the half-open unit interval. The analysis of one coordinate draws three samples, in
  this order: for the elevation, for the slope and for the urban distance. They are inputs
  of the model.
\<close>

record draws =
  elevation_draw :: real
  slope_draw :: real
  urban_draw :: real

definition uniform :: "real \<Rightarrow> real \<Rightarrow> real \<Rightarrow> real" where
  "uniform low high u = low + (high - low) * u"

definition quick_elevation_estimate :: "real \<Rightarrow> real \<Rightarrow> real \<Rightarrow> real" where
  "quick_elevation_estimate u lat lon =
     (if lat < 37.0 then uniform 50 300 u
      else if lat < 39.0 then uniform 800 1200 u
      else if lat < 41.0 then uniform 200 800 u
      else uniform 1000 1800 u)"

definition quick_slope_estimate :: "real \<Rightarrow> real \<Rightarrow> real \<Rightarrow> real \<Rightarrow> real" where
  "quick_slope_estimate u elevation lat lon =
     (if elevation < 200 then uniform 1 3 u
      else if elevation < 500 then uniform 2 6 u
      else if elevation < 1000 then uniform 5 10 u
      else uniform 8 20 u)"

definition cities :: "(real \<times> real) list" where
  "cities = [(39.9, 32.8), (41.0, 28.9), (38.4, 27.1), (36.9, 35.3)]"

definition calculate_realistic_urban_distance :: "real \<Rightarrow> real \<Rightarrow> real \<Rightarrow> real" where
  "calculate_realistic_urban_distance u lat lon =
     (let min_dist = min_list (map (\<lambda>c. sqrt ((lat - fst c) ^ 2 + (lon - snd c) ^ 2) * 111) cities)
      in min_dist * 1000 * uniform 0.8 1.2 u)"

record climate_data =
  annual_precipitation_mm :: real
  sunshine_hours :: real
  average_temperature :: real
  climate_type :: string

definition get_climate_data :: "real \<Rightarrow> real \<Rightarrow> climate_data" where
  "get_climate_data lat lon =
     (if lat < 37.0 then
        \<lparr>annual_precipitation_mm = 650, sunshine_hours = 2950, average_temperature = 18.5,
         climate_type = ''Mediterranean''\<rparr>
      else if lat < 39.0 then
        \<lparr>annual_precipitation_mm = 380, sunshine_hours = 2650, average_temperature = 11.2,
         climate_type = ''Continental''\<rparr>
      else if lat < 41.0 then
        \<lparr>annual_precipitation_mm = 850, sunshine_hours = 1950, average_temperature = 14.0,
         climate_type = ''Black Sea''\<rparr>
      else
        \<lparr>annual_precipitation_mm = 450, sunshine_hours = 2450, average_temperature = 8.5,
         climate_type = ''Severe Continental''\<rparr>)"

record soil_data =
  soil_type :: string
  soil_ph :: real
  organic_matter :: real
  productivity :: string

definition estimate_soil_quality :: "real \<Rightarrow> real \<Rightarrow> real \<Rightarrow> soil_data" where
  "estimate_soil_quality lat lon elevation =
     (if elevation < 200 then
        \<lparr>soil_type = ''Loamy'', soil_ph = 6.8, organic_matter = 2.3, productivity = ''high''\<rparr>
      else if elevation < 500 then
        \<lparr>soil_type = ''Clay-Loamy'', soil_ph = 7.1, organic_matter = 1.8,
         productivity = ''medium-high''\<rparr>
      else if elevation < 1000 then
        \<lparr>soil_type = ''Loamy-Sandy'', soil_ph = 6.5, organic_matter = 1.2,
         productivity = ''medium''\<rparr>
      else
        \<lparr>soil_type = ''Stony-Sandy'', soil_ph = 5.8, organic_matter = 0.7,
         productivity = ''low''\<rparr>)"

subsection \<open>Analysis of one coordinate\<close>

text \<open>
  \<^verbatim>\<open>round(x)\<close> rounds to the nearest integer and a tie to the even one;
  \<^verbatim>\<open>round(x, n)\<close> does the same at the \<open>n\<close>-th decimal.
\<close>

definition py_round :: "real \<Rightarrow> int" where
  "py_round x =
     (let f = \<lfloor>x\<rfloor>; d = x - of_int f
      in if d < 1 / 2 then f else if 1 / 2 < d then f + 1 else if even f then f else f + 1)"

definition py_round_digits :: "real \<Rightarrow> nat \<Rightarrow> real" where
  "py_round_digits x n = of_int (py_round (x * 10 ^ n)) / 10 ^ n"

text \<open>
  The dictionary that the analysis returns: the seventeen keys of \<open>enhanced_row\<close>, which is
  the row handed to the scorer, and the four keys assigned from the scorer's result.
\<close>

record analysis =
  enhanced_row :: row
  suitability_score :: int
  suitability_reasons :: string
  detailed_reasons :: ftext
  suitability_category :: string

definition get_default :: "row \<Rightarrow> string \<Rightarrow> pyval \<Rightarrow> pyval" where
  "get_default d k fallback = (case d k of None \<Rightarrow> fallback | Some v \<Rightarrow> v)"

text \<open>
  The analysis works on a coordinate of finite numbers. The distance that the search for
  the nearest water source returns is always finite (it is the placeholder's 0 or a
  distance that was found less than another float), and \<open>finite_value\<close> reads it.
\<close>

definition prepare_row ::
    "draws \<Rightarrow> real \<Rightarrow> real \<Rightarrow> row \<Rightarrow> water_source list \<Rightarrow> row" where
  "prepare_row rnd lat lon original_data water_sources =
     (let elevation = quick_elevation_estimate (elevation_draw rnd) lat lon;
          slope = quick_slope_estimate (slope_draw rnd) elevation lat lon;
          nearest = calculate_distance_to_nearest_water (Finite lat) (Finite lon) water_sources;
          urban_dist_km = calculate_realistic_urban_distance (urban_draw rnd) lat lon / 1000;
          climate = get_climate_data lat lon;
          soil = estimate_soil_quality lat lon elevation
      in [''latitude'' \<mapsto> Num lat,
          ''longitude'' \<mapsto> Num lon,
          ''elevation_m'' \<mapsto> Num (of_int (py_round elevation)),
          ''slope_percent'' \<mapsto> Num (py_round_digits slope 1),
          ''water_distance_km'' \<mapsto>
            Num (py_round_digits (finite_value (distance_km nearest)) 1),
          ''nearest_water_name'' \<mapsto> Str (near_name nearest),
          ''nearest_water_type'' \<mapsto> Str (near_type nearest),
          ''urban_distance_km'' \<mapsto> Num (py_round_digits urban_dist_km 1),
          ''soil_type'' \<mapsto> Str (soil_type soil),
          ''soil_ph'' \<mapsto> Num (soil_ph soil),
          ''soil_productivity'' \<mapsto> Str (productivity soil),
          ''annual_precipitation_mm'' \<mapsto> Num (annual_precipitation_mm climate),
          ''sunshine_hours'' \<mapsto> Num (sunshine_hours climate),
          ''climate_type'' \<mapsto> Str (climate_type climate),
          ''landcover_type'' \<mapsto> get_default original_data ''type'' (Str ''agriculture''),
          ''region_name'' \<mapsto> get_default original_data ''name'' (Str []),
          ''data_source'' \<mapsto> get_default original_data ''source'' (Str ''OSM'')])"

text \<open>
  The result is \<open>None\<close> where the function returns \<^verbatim>\<open>None\<close>. The guard is Python's
  \<^verbatim>\<open>not (36.0 <= lat <= 42.0) and (26.0 <= lon <= 45.0)\<close>, in which \<^verbatim>\<open>not\<close> binds
  tighter than \<^verbatim>\<open>and\<close>.
\<close>

definition analyze_coordinate_with_real_water ::
    "(real \<Rightarrow> string) \<Rightarrow> draws \<Rightarrow> real \<times> real \<times> row \<Rightarrow> water_source list
       \<Rightarrow> error + analysis option" where
  "analyze_coordinate_with_real_water str_num rnd coord_data water_sources =
     (case coord_data of (lat, lon, original_data) \<Rightarrow>
        if (\<not> (36.0 \<le> lat \<and> lat \<le> 42.0)) \<and> (26.0 \<le> lon \<and> lon \<le> 45.0) then Inr None
        else
          (let row = prepare_row rnd lat lon original_data water_sources
           in bind_result (calculate_comprehensive_suitability str_num row) (\<lambda>r.
                case r of (score, reasons, detailed_reason) \<Rightarrow>
                  Inr (Some \<lparr>enhanced_row = row, suitability_score = score,
                             suitability_reasons = reasons, detailed_reasons = detailed_reason,
                             suitability_category = categorize_suitability score\<rparr>))))"

subsection \<open>The batch analysis endpoint\<close>

text \<open>
  \<^verbatim>\<open>load_coordinates_from_csv\<close>: \<open>csv_rows\<close> are the coordinate pairs that the CSV files
  yielded; when there are none, the eleven sample coordinates are used.
\<close>

definition sample_coordinates :: "(real \<times> real) list" where
  "sample_coordinates =
     [(39.9334, 32.8597), (41.0082, 28.9784), (38.4237, 27.1428),
      (36.9864, 35.3253), (40.1885, 29.0610), (37.9144, 40.2306),
      (41.2867, 36.3300), (36.8000, 34.6333), (39.0571, 36.1713),
      (40.7214, 41.8005), (40.7522, 41.8280)]"

definition load_coordinates_from_csv :: "(real \<times> real) list \<Rightarrow> (real \<times> real) list" where
  "load_coordinates_from_csv csv_rows =
     (if csv_rows = [] then sample_coordinates else csv_rows)"

text \<open>The slice \<^verbatim>\<open>xs[:n]\<close>; a negative \<open>n\<close> counts from the end.\<close>

definition slice_to :: "int \<Rightarrow> 'a list \<Rightarrow> 'a list" where
  "slice_to n xs =
     (if 0 \<le> n then take (nat n) xs else take (nat (int (length xs) + n)) xs)"

definition sampled :: "int \<Rightarrow> (real \<times> real) list \<Rightarrow> (real \<times> real) list" where
  "sampled sample_size coordinates =
     (if int (length coordinates) > sample_size then slice_to sample_size coordinates
      else coordinates)"

text \<open>
  The loop over \<^verbatim>\<open>as_completed\<close>. It receives the results of the futures in the order
  in which they complete; a future whose task raised re-raises in \<^verbatim>\<open>future.result()\<close>.
  The state is \<open>processed\<close> and \<open>suitable_areas\<close>; \<^verbatim>\<open>break\<close> ends the loop.
\<close>

fun collect_results ::
    "int \<Rightarrow> (error + analysis option) list \<Rightarrow> nat \<times> analysis list
       \<Rightarrow> error + (nat \<times> analysis list)" where
  "collect_results max_areas [] st = Inr st"
| "collect_results max_areas (future # rest) st = (case st of (processed, suitable_areas) \<Rightarrow>
     (case future of
        Inl e \<Rightarrow> Inl e
      | Inr None \<Rightarrow> collect_results max_areas rest (processed + 1, suitable_areas)
      | Inr (Some result) \<Rightarrow>
          if suitability_score result \<ge> 60 then
            (if int (length (suitable_areas @ [result])) \<ge> max_areas
             then Inr (processed + 1, suitable_areas @ [result])
             else collect_results max_areas rest (processed + 1, suitable_areas @ [result]))
          else collect_results max_areas rest (processed + 1, suitable_areas)))"

text \<open>
  The results that qualify for acceptance among the results of a list of futures, in the
  order of that list: the analyses with a score of at least 60.
\<close>

fun qualifying :: "(error + analysis option) list \<Rightarrow> analysis list" where
  "qualifying [] = []"
| "qualifying (future # rest) =
     (case future of
        Inr (Some result) \<Rightarrow>
          if suitability_score result \<ge> 60 then result # qualifying rest else qualifying rest
      | _ \<Rightarrow> qualifying rest)"

text \<open>
  One entry of \<open>top_areas_formatted\<close>. The f-strings are kept as their parts; \<^verbatim>\<open>{v:.4f}\<close>
  raises on a string.
\<close>

record area_detail =
  area_rank :: nat
  area_coordinates :: ftext
  area_score :: int
  area_category :: string
  area_water :: ftext
  area_slope :: ftext
  area_elevation :: ftext
  area_soil :: ftext
  area_precipitation :: ftext
  area_sunshine :: ftext
  area_details :: ftext

definition fixed :: "nat \<Rightarrow> pyval \<Rightarrow> error + piece" where
  "fixed n v = (case v of Num r \<Rightarrow> Inr (Fixed n r) | Str _ \<Rightarrow> Inl ValueError)"

definition format_area :: "nat \<Rightarrow> analysis \<Rightarrow> error + area_detail" where
  "format_area i area =
     (let row = enhanced_row area in
      bind_result (getitem row ''latitude'') (\<lambda>la.
      bind_result (fixed 4 la) (\<lambda>la4.
      bind_result (getitem row ''longitude'') (\<lambda>lo.
      bind_result (fixed 4 lo) (\<lambda>lo4.
      bind_result (getitem row ''water_distance_km'') (\<lambda>wd.
      bind_result (getitem row ''nearest_water_name'') (\<lambda>wn.
      bind_result (getitem row ''slope_percent'') (\<lambda>sl.
      bind_result (getitem row ''elevation_m'') (\<lambda>el.
      bind_result (getitem row ''soil_type'') (\<lambda>ty.
      bind_result (getitem row ''soil_ph'') (\<lambda>ph.
      bind_result (getitem row ''annual_precipitation_mm'') (\<lambda>pr.
      bind_result (getitem row ''sunshine_hours'') (\<lambda>su.
        Inr \<lparr>area_rank = i,
             area_coordinates = [la4, Lit '', '', lo4],
             area_score = suitability_score area,
             area_category = suitability_category area,
             area_water = [Val wd, Lit ''km ('', Val wn, Lit '')''],
             area_slope = [Val sl, Lit ''%''],
             area_elevation = [Val el, Lit ''m''],
             area_soil = [Val ty, Lit '' (pH:'', Val ph, Lit '')''],
             area_precipitation = [Val pr, Lit ''mm''],
             area_sunshine = [Val su, Lit '' hours''],
             area_details = detailed_reasons area\<rparr>)))))))))))))"

text \<open>\<^verbatim>\<open>for i, area in enumerate(areas, i0)\<close>, appending one formatted entry per area.\<close>

fun format_areas :: "nat \<Rightarrow> analysis list \<Rightarrow> error + area_detail list" where
  "format_areas i [] = Inr []"
| "format_areas i (area # rest) =
     bind_result (format_area i area) (\<lambda>d.
     bind_result (format_areas (i + 1) rest) (\<lambda>ds. Inr (d # ds)))"

record summary =
  total_analyzed :: nat
  productive_areas :: nat
  success_rate :: real

definition summarize :: "nat \<Rightarrow> analysis list \<Rightarrow> summary" where
  "summarize processed suitable_areas =
     \<lparr>total_analyzed = processed,
      productive_areas = length suitable_areas,
      success_rate =
        (if processed > 0
         then py_round_digits (real (length suitable_areas) / real processed * 100) 2
         else 0)\<rparr>"

text \<open>
  The response: the early return for an empty catalog, the response of the outer
  \<^verbatim>\<open>except\<close>, or the completed analysis with its summary and its top areas. The wall-clock
  \<open>processing_time\<close> and the \<open>visual_output\<close> text, which is assembled from the summary and
  the first three top areas, are left out.
\<close>

datatype response =
    Failure string
  | ErrorResponse error
  | Completed summary "area_detail list"

text \<open>The size of the worker pool, \<^verbatim>\<open>ThreadPoolExecutor(max_workers=6)\<close>.\<close>

definition max_workers :: int where
  "max_workers = 6"

text \<open>
  The endpoint takes the catalog that the loader returned, read as a list of water
  sources, and the coordinate pairs that the CSV files yielded. It submits one task per
  coordinate, each with \<open>original_data = {}\<close>. A run of the pool is described
  by \<open>completion\<close>, the indices of the tasks in the order in which they complete, and by
  \<open>rnd\<close>, the random samples that each task draws. In a run every task completes exactly
  once.
\<close>

definition completion_order :: "nat \<Rightarrow> nat list \<Rightarrow> bool" where
  "completion_order n completion \<longleftrightarrow> distinct completion \<and> set completion = {..<n}"

definition run_tasks ::
    "(real \<Rightarrow> string) \<Rightarrow> (nat \<Rightarrow> draws) \<Rightarrow> water_source list \<Rightarrow> (real \<times> real) list
       \<Rightarrow> nat list \<Rightarrow> (error + analysis option) list" where
  "run_tasks str_num rnd water_sources coordinates completion =
     (let coord_list = map (\<lambda>c. (fst c, snd c, Map.empty)) coordinates
      in map (\<lambda>i. analyze_coordinate_with_real_water str_num (rnd i) (coord_list ! i)
                     water_sources) completion)"

definition accepted_results ::
    "(real \<Rightarrow> string) \<Rightarrow> (nat \<Rightarrow> draws) \<Rightarrow> water_source list \<Rightarrow> (real \<times> real) list
       \<Rightarrow> nat list \<Rightarrow> int \<Rightarrow> error + (nat \<times> analysis list)" where
  "accepted_results str_num rnd water_sources coordinates completion max_areas =
     collect_results max_areas (run_tasks str_num rnd water_sources coordinates completion)
       (0, [])"

definition comprehensive_real_analysis ::
    "(real \<Rightarrow> string) \<Rightarrow> (nat \<Rightarrow> draws) \<Rightarrow> nat list \<Rightarrow> water_source list
       \<Rightarrow> (real \<times> real) list \<Rightarrow> int \<Rightarrow> int \<Rightarrow> response" where
  "comprehensive_real_analysis str_num rnd completion water_sources csv_rows max_areas sample_size =
     (if water_sources = [] then Failure ''Water sources could not be retrieved''
      else
        (let coordinates = sampled sample_size (load_coordinates_from_csv csv_rows)
         in case bind_result
                   (accepted_results str_num rnd water_sources coordinates completion max_areas)
                   (\<lambda>st. case st of (processed, suitable_areas) \<Rightarrow>
                      bind_result (format_areas 1 (take 10 suitable_areas)) (\<lambda>top_areas.
                        Inr (summarize processed suitable_areas, top_areas)))
            of Inl e \<Rightarrow> ErrorResponse e
             | Inr r \<Rightarrow> Completed (fst r) (snd r)))"

subsection \<open>Example catalog\<close>


subsection \<open>Example run\<close>

text \<open>
  Two water sources, two coordinates lying on them, and the samples drawn by the two
  tasks: the first coordinate gets elevation 100 and slope 2, the second elevation 800 and
  slope 5.
\<close>

definition plain_sources :: "water_source list" where
  "plain_sources =
     [\<lparr>w_lat = Finite 36, w_lon = Finite 30, w_name = ''Aksu'', w_type = ''river'',
       w_source = ''OpenStreetMap''\<rparr>,
      \<lparr>w_lat = Finite 38, w_lon = Finite 30, w_name = ''Egirdir'', w_type = ''lake'',
       w_source = ''OpenStreetMap''\<rparr>]"

definition coast_draws :: draws where
  "coast_draws = \<lparr>elevation_draw = 0.2, slope_draw = 0.5, urban_draw = 0.5\<rparr>"

definition plateau_draws :: draws where
  "plateau_draws = \<lparr>elevation_draw = 0, slope_draw = 0, urban_draw = 0.5\<rparr>"

definition two_draws :: "nat \<Rightarrow> draws" where
  "two_draws i = (if i = 0 then coast_draws else plateau_draws)"

definition two_coordinates :: "(real \<times> real) list" where
  "two_coordinates = [(36, 30), (38, 30)]"

subsection \<open>Example reply\<close>

text \<open>
  Four elements: a named river, a stream without a center, an unnamed lake and a canal,
  which has no recognised water type.
\<close>

definition river_elements :: "element list" where
  "river_elements =
     [\<lparr>el_center = Some (JInt 36, JReal (Finite 30.5)),
       el_tags = [(''waterway'', JString ''river''), (''name'', JString ''Aksu'')]\<rparr>,
      \<lparr>el_center = None, el_tags = [(''waterway'', JString ''stream'')]\<rparr>,
      \<lparr>el_center = Some (JReal (Finite 38), JReal (Finite 30)),
       el_tags = [(''natural'', JString ''water'')]\<rparr>,
      \<lparr>el_center = Some (JReal (Finite 40), JReal (Finite 31)),
       el_tags = [(''waterway'', JString ''canal'')]\<rparr>]"

subsection \<open>Example rows\<close>

text \<open>
  The row of the specification's worked example, with exactly the seven attributes it
  lists; the same row completed with the three keys that the detail lines read; and a row
  of the Anatolian steppe.
\<close>

definition listed_row :: row where
  "listed_row =
     [''water_distance_km'' \<mapsto> Num 3, ''slope_percent'' \<mapsto> Num 2,
      ''elevation_m'' \<mapsto> Num 100, ''soil_productivity'' \<mapsto> Str ''high'',
      ''annual_precipitation_mm'' \<mapsto> Num 600, ''sunshine_hours'' \<mapsto> Num 2000,
      ''landcover_type'' \<mapsto> Str ''Farmland'']"

definition farm_row :: row where
  "farm_row =
     listed_row(''nearest_water_name'' \<mapsto> Str ''Unnamed'', ''soil_type'' \<mapsto> Str ''Loamy'',
                ''soil_ph'' \<mapsto> Num 6.8)"

definition steppe_row :: row where
  "steppe_row =
     [''water_distance_km'' \<mapsto> Num 7.5, ''nearest_water_name'' \<mapsto> Str ''Unnamed'',
      ''slope_percent'' \<mapsto> Num 12, ''elevation_m'' \<mapsto> Num 900,
      ''soil_productivity'' \<mapsto> Str ''medium-high'', ''soil_type'' \<mapsto> Str ''Clay-Loamy'',
      ''soil_ph'' \<mapsto> Num 7.1, ''annual_precipitation_mm'' \<mapsto> Num 380,
      ''sunshine_hours'' \<mapsto> Num 2650, ''landcover_type'' \<mapsto> Str ''agriculture'']"

section \<open>Properties\<close>

subsection \<open>Auxiliary facts about floats and the search\<close>

lemma fless_PosInf_left [simp]: "fless PosInf b = False"
  by (cases b) simp_all

lemma fless_NaN_left [simp]: "fless NaN b = False"
  by (cases b) simp_all

lemma fless_Finite_PosInf [simp]: "fless (Finite x) PosInf = True"
  by simp

lemma float_max_million: "1000000 \<le> float_max"
  by (simp add: float_max_def)


lemma float_result_in_range: "\<bar>x\<bar> \<le> float_max \<Longrightarrow> float_result x = Finite x"
  by (auto simp: float_result_def)

lemma float_result_small: "\<bar>x\<bar> \<le> 1000000 \<Longrightarrow> float_result x = Finite x"
  using float_max_million by (intro float_result_in_range) linarith

lemma float_result_nonneg:
  "0 \<le> x \<Longrightarrow> float_result x = Finite x \<or> float_result x = PosInf"
  using float_max_million by (auto simp: float_result_def)

lemma fsqrt_not_NegInf: "fsqrt a \<noteq> NegInf"
  by (cases a) simp_all

lemma fsqrt_sign: "fsqrt a = Finite x \<Longrightarrow> 0 \<le> x"
  by (cases a) (auto split: if_splits)

lemma degree_distance_km_cases:
  "(\<exists>d. degree_distance_km lat lon w = Finite d \<and> 0 \<le> d)
   \<or> degree_distance_km lat lon w = PosInf \<or> degree_distance_km lat lon w = NaN"
proof (cases "fsqrt (fadd (fsquare (fsub lat (w_lat w))) (fsquare (fsub lon (w_lon w))))")
  case (Finite x)
  from fsqrt_sign [OF Finite] have "0 \<le> x * 111" by simp
  from float_result_nonneg [OF this] this Finite show ?thesis
    by (auto simp: degree_distance_km_def)
next
  case PosInf
  then show ?thesis by (simp add: degree_distance_km_def)
next
  case NegInf
  with fsqrt_not_NegInf show ?thesis by blast
next
  case NaN
  then show ?thesis by (simp add: degree_distance_km_def)
qed


lemma consider_water_not_finite:
  assumes "\<not> is_finite (degree_distance_km lat lon w)"
  shows "consider_water lat lon w (m, n) = (m, n)"
proof -
  from assms degree_distance_km_cases [of lat lon w]
  have "degree_distance_km lat lon w = PosInf \<or> degree_distance_km lat lon w = NaN"
    by (auto simp: is_finite_def)
  then show ?thesis by (auto simp: consider_water_def Let_def)
qed

lemma nearest_at_skip:
  assumes "nearest_at lat lon ws i" and "\<not> is_finite (degree_distance_km lat lon w)"
  shows "nearest_at lat lon (ws @ [w]) i"
  using assms
  by (auto simp: nearest_at_def nth_append less_Suc_eq is_finite_def)

lemma scan_inv_step:
  assumes "scan_inv lat lon ws st"
  shows "scan_inv lat lon (ws @ [w]) (consider_water lat lon w st)"
proof (cases "is_finite (degree_distance_km lat lon w)")
  case False
  from assms show ?thesis
    unfolding scan_inv_def
  proof (elim disjE conjE exE)
    assume "\<forall>w \<in> set ws. \<not> is_finite (degree_distance_km lat lon w)"
      and st: "st = (PosInf, unknown_water)"
    with False show "(\<forall>w \<in> set (ws @ [w]). \<not> is_finite (degree_distance_km lat lon w))
          \<and> consider_water lat lon w st = (PosInf, unknown_water)
        \<or> (\<exists>i. nearest_at lat lon (ws @ [w]) i
           \<and> consider_water lat lon w st = (degree_distance_km lat lon ((ws @ [w]) ! i),
                   \<lparr>near_name = w_name ((ws @ [w]) ! i), near_type = w_type ((ws @ [w]) ! i),
                    distance_km = degree_distance_km lat lon ((ws @ [w]) ! i)\<rparr>))"
      by (simp add: consider_water_not_finite)
  next
    fix i assume i: "nearest_at lat lon ws i"
      and st: "st = (degree_distance_km lat lon (ws ! i),
                   \<lparr>near_name = w_name (ws ! i), near_type = w_type (ws ! i),
                    distance_km = degree_distance_km lat lon (ws ! i)\<rparr>)"
    have "(ws @ [w]) ! i = ws ! i" using i by (simp add: nearest_at_def nth_append)
    with nearest_at_skip [OF i False] st False
    show "(\<forall>w \<in> set (ws @ [w]). \<not> is_finite (degree_distance_km lat lon w))
          \<and> consider_water lat lon w st = (PosInf, unknown_water)
        \<or> (\<exists>i. nearest_at lat lon (ws @ [w]) i
           \<and> consider_water lat lon w st = (degree_distance_km lat lon ((ws @ [w]) ! i),
                   \<lparr>near_name = w_name ((ws @ [w]) ! i), near_type = w_type ((ws @ [w]) ! i),
                    distance_km = degree_distance_km lat lon ((ws @ [w]) ! i)\<rparr>))"
      by (intro disjI2 exI [of _ i]) (simp add: consider_water_not_finite)
  qed
next
  case True
  then obtain e where e: "degree_distance_km lat lon w = Finite e"
    by (auto simp: is_finite_def split: pyfloat.splits)
  let ?new = "(degree_distance_km lat lon w,
         \<lparr>near_name = w_name w, near_type = w_type w,
          distance_km = degree_distance_km lat lon w\<rparr>)"
  from assms show ?thesis
    unfolding scan_inv_def
  proof (elim disjE conjE exE)
    assume none: "\<forall>w \<in> set ws. \<not> is_finite (degree_distance_km lat lon w)"
      and st: "st = (PosInf, unknown_water)"
    have "\<forall>j < length ws. \<forall>x. degree_distance_km lat lon (ws ! j) \<noteq> Finite x"
    proof (intro allI impI notI)
      fix j x assume "j < length ws" and x: "degree_distance_km lat lon (ws ! j) = Finite x"
      then have "ws ! j \<in> set ws" by simp
      with none have "\<not> is_finite (degree_distance_km lat lon (ws ! j))" by blast
      with x show False by (simp add: is_finite_def)
    qed
    then have "nearest_at lat lon (ws @ [w]) (length ws)"
      using e
      by (auto simp: nearest_at_def nth_append less_Suc_eq)
    moreover have "consider_water lat lon w st = ?new"
      by (simp add: consider_water_def st Let_def e)
    ultimately show "(\<forall>w \<in> set (ws @ [w]). \<not> is_finite (degree_distance_km lat lon w))
          \<and> consider_water lat lon w st = (PosInf, unknown_water)
        \<or> (\<exists>i. nearest_at lat lon (ws @ [w]) i
           \<and> consider_water lat lon w st = (degree_distance_km lat lon ((ws @ [w]) ! i),
                   \<lparr>near_name = w_name ((ws @ [w]) ! i), near_type = w_type ((ws @ [w]) ! i),
                    distance_km = degree_distance_km lat lon ((ws @ [w]) ! i)\<rparr>))"
      by (intro disjI2 exI [of _ "length ws"]) simp
  next
    fix i assume i: "nearest_at lat lon ws i"
      and st: "st = (degree_distance_km lat lon (ws ! i),
                   \<lparr>near_name = w_name (ws ! i), near_type = w_type (ws ! i),
                    distance_km = degree_distance_km lat lon (ws ! i)\<rparr>)"
    from i obtain d where d: "degree_distance_km lat lon (ws ! i) = Finite d"
      by (auto simp: nearest_at_def)
    show "(\<forall>w \<in> set (ws @ [w]). \<not> is_finite (degree_distance_km lat lon w))
          \<and> consider_water lat lon w st = (PosInf, unknown_water)
        \<or> (\<exists>i. nearest_at lat lon (ws @ [w]) i
           \<and> consider_water lat lon w st = (degree_distance_km lat lon ((ws @ [w]) ! i),
                   \<lparr>near_name = w_name ((ws @ [w]) ! i), near_type = w_type ((ws @ [w]) ! i),
                    distance_km = degree_distance_km lat lon ((ws @ [w]) ! i)\<rparr>))"
    proof (cases "e < d")
      case less: True
      have "nearest_at lat lon (ws @ [w]) (length ws)"
        using i d e less
        by (fastforce simp: nearest_at_def nth_append less_Suc_eq)
      moreover have "consider_water lat lon w st = ?new"
        using less by (simp add: consider_water_def st Let_def e d)
      ultimately show ?thesis
        by (intro disjI2 exI [of _ "length ws"]) simp
    next
      case nless: False
      have "nearest_at lat lon (ws @ [w]) i"
        using i d e nless
        by (auto simp: nearest_at_def nth_append less_Suc_eq)
      moreover have "consider_water lat lon w st = st"
        using nless by (simp add: consider_water_def st Let_def e d)
      moreover have "(ws @ [w]) ! i = ws ! i"
        using i by (simp add: nearest_at_def nth_append)
      ultimately show ?thesis
        unfolding st by (intro disjI2 exI [of _ i]) simp
    qed
  qed
qed

lemma scan_inv_fold:
  "scan_inv lat lon ws (fold (consider_water lat lon) ws (PosInf, unknown_water))"
proof (induction ws rule: rev_induct)
  case Nil
  show ?case by (simp add: scan_inv_def)
next
  case (snoc w ws)
  from scan_inv_step [OF snoc.IH] show ?case by simp
qed



lemma nearest_distance_finite:
  "is_finite (distance_km (calculate_distance_to_nearest_water lat lon ws))"
  using scan_inv_fold [of lat lon ws]
  by (auto simp: scan_inv_def calculate_distance_to_nearest_water_def unknown_water_def
      is_finite_def nearest_at_def)

subsection \<open>Auxiliary facts about the scorer\<close>

lemmas criterion_defs =
  water_criterion_def slope_criterion_def elevation_criterion_def soil_criterion_def
  precipitation_criterion_def sunshine_criterion_def

lemma bind_result_Inr:
  "bind_result r f = Inr y \<longleftrightarrow> (\<exists>v. r = Inr v \<and> f v = Inr y)"
  by (cases r) (simp_all add: bind_result_def)

lemma lower_agriculture: "lower ''agriculture'' = ''agriculture''"
  by code_simp

lemma lower_Farmland: "lower ''Farmland'' = ''farmland''"
  by code_simp

lemma water_points:
  "water_criterion row t = Inr t' \<Longrightarrow> fst t' - fst t \<in> {0, 18, 25}"
  by (cases t) (auto simp: water_criterion_def bind_result_Inr split: if_splits)

lemma slope_points:
  "slope_criterion row t = Inr t' \<Longrightarrow> fst t' - fst t \<in> {0, 15, 20}"
  by (cases t) (auto simp: slope_criterion_def bind_result_Inr split: if_splits)

lemma elevation_points:
  "elevation_criterion row t = Inr t' \<Longrightarrow> fst t' - fst t \<in> {0, 10, 15}"
  by (cases t) (auto simp: elevation_criterion_def bind_result_Inr split: if_splits)

lemma soil_points:
  "soil_criterion row t = Inr t' \<Longrightarrow> fst t' - fst t \<in> {0, 7, 10}"
  by (cases t) (auto simp: soil_criterion_def bind_result_Inr split: if_splits)

lemma precipitation_points:
  "precipitation_criterion row t = Inr t' \<Longrightarrow> fst t' - fst t \<in> {0, 8}"
  by (cases t) (auto simp: precipitation_criterion_def bind_result_Inr split: if_splits)

lemma sunshine_points:
  "sunshine_criterion row t = Inr t' \<Longrightarrow> fst t' - fst t \<in> {0, 7}"
  by (cases t) (auto simp: sunshine_criterion_def bind_result_Inr split: if_splits)

lemma landcover_points:
  "fst (landcover_bonus str_num row t) - fst t \<in> {0, 8}"
  by (cases t) (simp add: landcover_bonus_def Let_def)

lemma criteria_steps:
  assumes "criteria str_num row = Inr t"
  obtains t1 t2 t3 t4 t5 t6 where
    "water_criterion row (0, [], []) = Inr t1"
    "slope_criterion row t1 = Inr t2"
    "elevation_criterion row t2 = Inr t3"
    "soil_criterion row t3 = Inr t4"
    "precipitation_criterion row t4 = Inr t5"
    "sunshine_criterion row t5 = Inr t6"
    "t = landcover_bonus str_num row t6"
  using assms unfolding criteria_def bind_result_Inr by blast

lemma criteria_points:
  assumes "criteria str_num row = Inr t"
  shows "\<exists>w sl el so p su lc.
           w \<in> {0, 18, 25} \<and> sl \<in> {0, 15, 20} \<and> el \<in> {0, 10, 15} \<and> so \<in> {0, 7, 10}
           \<and> p \<in> {0, 8} \<and> su \<in> {0, 7} \<and> lc \<in> {0, 8}
           \<and> fst t = w + sl + el + so + p + su + lc"
proof -
  from assms obtain t1 t2 t3 t4 t5 t6 where
    s1: "water_criterion row (0, [], []) = Inr t1" and
    s2: "slope_criterion row t1 = Inr t2" and
    s3: "elevation_criterion row t2 = Inr t3" and
    s4: "soil_criterion row t3 = Inr t4" and
    s5: "precipitation_criterion row t4 = Inr t5" and
    s6: "sunshine_criterion row t5 = Inr t6" and
    s7: "t = landcover_bonus str_num row t6"
    by (rule criteria_steps)
  let ?w = "fst t1" and ?sl = "fst t2 - fst t1" and ?el = "fst t3 - fst t2"
    and ?so = "fst t4 - fst t3" and ?p = "fst t5 - fst t4" and ?su = "fst t6 - fst t5"
    and ?lc = "fst t - fst t6"
  have 1: "?w \<in> {0, 18, 25}" using water_points [OF s1] by simp
  have 2: "?sl \<in> {0, 15, 20}" by (rule slope_points [OF s2])
  have 3: "?el \<in> {0, 10, 15}" by (rule elevation_points [OF s3])
  have 4: "?so \<in> {0, 7, 10}" by (rule soil_points [OF s4])
  have 5: "?p \<in> {0, 8}" by (rule precipitation_points [OF s5])
  have 6: "?su \<in> {0, 7}" by (rule sunshine_points [OF s6])
  have 7: "?lc \<in> {0, 8}" unfolding s7 by (rule landcover_points)
  have 8: "fst t = ?w + ?sl + ?el + ?so + ?p + ?su + ?lc" by simp
  from 1 2 3 4 5 6 7 8 show ?thesis by (intro exI conjI)
qed

lemma calculate_score:
  assumes "calculate_comprehensive_suitability str_num row = Inr (score, reasons, detailed_reason)"
  obtains t where "criteria str_num row = Inr t" "score = fst t"
proof -
  from assms obtain t where t: "criteria str_num row = Inr t"
    and r: "(case t of (score, reasons, details) \<Rightarrow>
       Inr (score, join '', '' reasons, join [Lit '' | ''] details))
       = (Inr (score, reasons, detailed_reason) :: error + (int \<times> string \<times> ftext))"
    unfolding calculate_comprehensive_suitability_def bind_result_Inr by blast
  from r have "score = fst t" by (cases t) simp
  with t that show thesis by blast
qed

subsection \<open>Auxiliary facts about the analysis and the endpoint\<close>

lemma prepare_row_keys:
  "\<exists>d. prepare_row rnd lat lon od ws ''water_distance_km'' = Some (Num d)"
  "\<exists>n. prepare_row rnd lat lon od ws ''nearest_water_name'' = Some n"
  "\<exists>d. prepare_row rnd lat lon od ws ''slope_percent'' = Some (Num d)"
  "\<exists>d. prepare_row rnd lat lon od ws ''elevation_m'' = Some (Num d)"
  "\<exists>v. prepare_row rnd lat lon od ws ''soil_productivity'' = Some v"
  "\<exists>v. prepare_row rnd lat lon od ws ''soil_type'' = Some v"
  "\<exists>v. prepare_row rnd lat lon od ws ''soil_ph'' = Some (Num v)"
  "\<exists>d. prepare_row rnd lat lon od ws ''annual_precipitation_mm'' = Some (Num d)"
  "\<exists>d. prepare_row rnd lat lon od ws ''sunshine_hours'' = Some (Num d)"
  "\<exists>d. prepare_row rnd lat lon od ws ''latitude'' = Some (Num d)"
  "\<exists>d. prepare_row rnd lat lon od ws ''longitude'' = Some (Num d)"
  "prepare_row rnd lat lon od ws ''landcover_type'' = Some (get_default od ''type'' (Str ''agriculture''))"
  by (simp_all add: prepare_row_def Let_def)

lemma water_total:
  assumes "\<exists>d. row ''water_distance_km'' = Some (Num d)" "\<exists>n. row ''nearest_water_name'' = Some n"
  shows "\<exists>t'. water_criterion row t = Inr t'"
  using assms by (cases t) (auto simp: water_criterion_def bind_result_def getitem_def as_number_def)

lemma slope_total:
  assumes "\<exists>d. row ''slope_percent'' = Some (Num d)"
  shows "\<exists>t'. slope_criterion row t = Inr t'"
  using assms by (cases t) (auto simp: slope_criterion_def bind_result_def getitem_def as_number_def)

lemma elevation_total:
  assumes "\<exists>d. row ''elevation_m'' = Some (Num d)"
  shows "\<exists>t'. elevation_criterion row t = Inr t'"
  using assms by (cases t) (auto simp: elevation_criterion_def bind_result_def getitem_def as_number_def)

lemma soil_total:
  assumes "\<exists>v. row ''soil_productivity'' = Some v" "\<exists>v. row ''soil_type'' = Some v"
    "\<exists>v. row ''soil_ph'' = Some (Num v)"
  shows "\<exists>t'. soil_criterion row t = Inr t'"
  using assms by (cases t) (auto simp: soil_criterion_def bind_result_def getitem_def)

lemma precipitation_total:
  assumes "\<exists>d. row ''annual_precipitation_mm'' = Some (Num d)"
  shows "\<exists>t'. precipitation_criterion row t = Inr t'"
  using assms
  by (cases t) (auto simp: precipitation_criterion_def bind_result_def getitem_def as_number_def)

lemma sunshine_total:
  assumes "\<exists>d. row ''sunshine_hours'' = Some (Num d)"
  shows "\<exists>t'. sunshine_criterion row t = Inr t'"
  using assms
  by (cases t) (auto simp: sunshine_criterion_def bind_result_def getitem_def as_number_def)

lemma criteria_prepare_row:
  "\<exists>t. criteria str_num (prepare_row rnd lat lon od ws) = Inr t"
proof -
  let ?row = "prepare_row rnd lat lon od ws"
  note k = prepare_row_keys [of rnd lat lon od ws]
  obtain t1 where 1: "water_criterion ?row (0, [], []) = Inr t1"
    using water_total [of ?row "(0, [], [])"] k(1) k(2) by blast
  obtain t2 where 2: "slope_criterion ?row t1 = Inr t2"
    using slope_total [of ?row t1] k(3) by blast
  obtain t3 where 3: "elevation_criterion ?row t2 = Inr t3"
    using elevation_total [of ?row t2] k(4) by blast
  obtain t4 where 4: "soil_criterion ?row t3 = Inr t4"
    using soil_total [of ?row t3] k(5) k(6) k(7) by blast
  obtain t5 where 5: "precipitation_criterion ?row t4 = Inr t5"
    using precipitation_total [of ?row t4] k(8) by blast
  obtain t6 where 6: "sunshine_criterion ?row t5 = Inr t6"
    using sunshine_total [of ?row t5] k(9) by blast
  have "criteria str_num ?row = Inr (landcover_bonus str_num ?row t6)"
    by (simp add: criteria_def bind_result_def 1 2 3 4 5 6)
  then show ?thesis by (rule exI)
qed

lemma calculate_prepare_row:
  "\<exists>score reasons detailed_reason.
     calculate_comprehensive_suitability str_num (prepare_row rnd lat lon od ws)
       = Inr (score, reasons, detailed_reason)"
proof -
  obtain t where "criteria str_num (prepare_row rnd lat lon od ws) = Inr t"
    using criteria_prepare_row by blast
  then show ?thesis
    by (cases t) (simp add: calculate_comprehensive_suitability_def bind_result_def)
qed

lemma analyze_cases:
  "analyze_coordinate_with_real_water str_num rnd (lat, lon, od) ws =
     (if (\<not> (36 \<le> lat \<and> lat \<le> 42)) \<and> (26 \<le> lon \<and> lon \<le> 45) then Inr None
      else case calculate_comprehensive_suitability str_num (prepare_row rnd lat lon od ws) of
             Inl e \<Rightarrow> Inl e
           | Inr (score, reasons, detailed_reason) \<Rightarrow>
               Inr (Some \<lparr>enhanced_row = prepare_row rnd lat lon od ws, suitability_score = score,
                          suitability_reasons = reasons, detailed_reasons = detailed_reason,
                          suitability_category = categorize_suitability score\<rparr>))"
  by (simp add: analyze_coordinate_with_real_water_def Let_def bind_result_def split: sum.splits)


lemma collect_results_props:
  assumes "collect_results m fs (p, acc) = Inr (p', acc')"
  shows "\<exists>new. acc' = acc @ new
           \<and> set new \<subseteq> {a. Inr (Some a) \<in> set fs}
           \<and> (\<forall>a \<in> set new. suitability_score a \<ge> 60)"
    and "int (length acc') \<le> max m (int (length acc) + 1)"
    and "p' \<le> p + length fs"
  using assms
proof (induction fs arbitrary: p acc)
  case Nil
  { case 1 then show ?case by simp }
  { case 2 then show ?case by simp }
  { case 3 then show ?case by simp }
next
  case (Cons f fs)
  { case 1 then show ?case
      using Cons.IH(1)
      by (fastforce split: sum.splits option.splits if_splits) }
  { case 2 then show ?case
      using Cons.IH(2)
      by (fastforce split: sum.splits option.splits if_splits) }
  { case 3 then show ?case
      using Cons.IH(3)
      by (fastforce split: sum.splits option.splits if_splits) }
qed

lemma analyze_total:
  "\<exists>r. analyze_coordinate_with_real_water str_num rnd cd ws = Inr r"
proof -
  obtain lat lon od where cd: "cd = (lat, lon, od)" by (cases cd)
  obtain score reasons detailed_reason where
    "calculate_comprehensive_suitability str_num (prepare_row rnd lat lon od ws)
       = Inr (score, reasons, detailed_reason)"
    using calculate_prepare_row by blast
  then show ?thesis unfolding cd by (simp add: analyze_cases)
qed

lemma analyze_row:
  assumes "analyze_coordinate_with_real_water str_num rnd (lat, lon, od) ws = Inr (Some a)"
  shows "enhanced_row a = prepare_row rnd lat lon od ws"
    and "calculate_comprehensive_suitability str_num (prepare_row rnd lat lon od ws)
           = Inr (suitability_score a, suitability_reasons a, detailed_reasons a)"
    and "suitability_category a = categorize_suitability (suitability_score a)"
  using assms
  by (auto simp: analyze_cases split: if_splits sum.splits)

lemma format_area_prepare_row:
  assumes "enhanced_row a = prepare_row rnd lat lon od ws"
  shows "\<exists>d. format_area i a = Inr d"
proof -
  note k = prepare_row_keys [of rnd lat lon od ws]
  from k(10) obtain la where la: "enhanced_row a ''latitude'' = Some (Num la)"
    unfolding assms by blast
  from k(11) obtain lo where lo: "enhanced_row a ''longitude'' = Some (Num lo)"
    unfolding assms by blast
  from k(1) obtain wd where wd: "enhanced_row a ''water_distance_km'' = Some wd"
    unfolding assms by blast
  from k(2) obtain wn where wn: "enhanced_row a ''nearest_water_name'' = Some wn"
    unfolding assms by blast
  from k(3) obtain sl where sl: "enhanced_row a ''slope_percent'' = Some sl"
    unfolding assms by blast
  from k(4) obtain el where el: "enhanced_row a ''elevation_m'' = Some el"
    unfolding assms by blast
  from k(6) obtain ty where ty: "enhanced_row a ''soil_type'' = Some ty"
    unfolding assms by blast
  from k(7) obtain ph where ph: "enhanced_row a ''soil_ph'' = Some ph"
    unfolding assms by blast
  from k(8) obtain pr where pr: "enhanced_row a ''annual_precipitation_mm'' = Some pr"
    unfolding assms by blast
  from k(9) obtain su where su: "enhanced_row a ''sunshine_hours'' = Some su"
    unfolding assms by blast
  show ?thesis
    by (simp add: format_area_def Let_def getitem_def fixed_def bind_result_def
        la lo wd wn sl el ty ph pr su)
qed

lemma format_area_fields:
  assumes "format_area i a = Inr d"
  shows "area_rank d = i" "area_score d = suitability_score a"
    "area_category d = suitability_category a" "area_details d = detailed_reasons a"
  using assms
  by (auto simp: format_area_def Let_def bind_result_Inr)

lemma format_areas_props:
  assumes "format_areas i as = Inr ds"
  shows "length ds = length as
         \<and> (\<forall>k < length as. format_area (i + k) (as ! k) = Inr (ds ! k))"
  using assms
proof (induction as arbitrary: i ds)
  case Nil
  then show ?case by simp
next
  case (Cons a as)
  from Cons.prems obtain d ds' where d: "format_area i a = Inr d"
    and ds': "format_areas (i + 1) as = Inr ds'" and ds: "ds = d # ds'"
    by (auto simp: bind_result_Inr)
  from Cons.IH [OF ds'] have len: "length ds' = length as"
    and rest: "\<forall>k < length as. format_area (i + 1 + k) (as ! k) = Inr (ds' ! k)"
    by blast+
  have "\<forall>k < length (a # as). format_area (i + k) ((a # as) ! k) = Inr (ds ! k)"
  proof (intro allI impI)
    fix k assume "k < length (a # as)"
    then show "format_area (i + k) ((a # as) ! k) = Inr (ds ! k)"
      using d rest by (cases k) (simp_all add: ds)
  qed
  with len ds show ?case by simp
qed

lemma format_areas_total:
  assumes "\<forall>a \<in> set as. \<forall>i. \<exists>d. format_area i a = Inr d"
  shows "\<exists>ds. format_areas i as = Inr ds"
  using assms
proof (induction as arbitrary: i)
  case Nil
  then show ?case by simp
next
  case (Cons a as)
  from Cons.prems have "\<forall>i. \<exists>d. format_area i a = Inr d" by simp
  then obtain d where d: "format_area i a = Inr d" by blast
  from Cons.prems have "\<forall>a \<in> set as. \<forall>i. \<exists>d. format_area i a = Inr d" by simp
  from Cons.IH [OF this] obtain ds where "format_areas (i + 1) as = Inr ds" by blast
  with d show ?case by (simp add: bind_result_def)
qed

lemma collect_results_total:
  assumes "\<forall>f \<in> set fs. \<exists>r. f = Inr r"
  shows "\<exists>st'. collect_results m fs st = Inr st'"
  using assms
proof (induction fs arbitrary: st)
  case Nil
  then show ?case by simp
next
  case (Cons f fs)
  from Cons.prems obtain r where f: "f = Inr r" by auto
  from Cons.prems have rest: "\<forall>f \<in> set fs. \<exists>r. f = Inr r" by simp
  obtain p acc where st: "st = (p, acc)" by (cases st)
  show ?case
    using Cons.IH [OF rest] unfolding st f
    by (cases r) simp_all
qed

lemma run_tasks_results:
  assumes "f \<in> set (run_tasks str_num rnd ws coordinates completion)"
  shows "\<exists>r. f = Inr r"
proof -
  from assms obtain i where
    "f = analyze_coordinate_with_real_water str_num (rnd i)
           (map (\<lambda>c. (fst c, snd c, Map.empty)) coordinates ! i) ws"
    by (auto simp: run_tasks_def Let_def)
  then show ?thesis by (simp add: analyze_total)
qed

lemma run_tasks_origin:
  assumes "Inr (Some a) \<in> set (run_tasks str_num rnd ws coordinates completion)"
    and "completion_order (length coordinates) completion"
  shows "\<exists>i < length coordinates.
           analyze_coordinate_with_real_water str_num (rnd i)
             (fst (coordinates ! i), snd (coordinates ! i), Map.empty) ws = Inr (Some a)"
proof -
  from assms(1) obtain i where i: "i \<in> set completion"
    and a: "analyze_coordinate_with_real_water str_num (rnd i)
              (map (\<lambda>c. (fst c, snd c, Map.empty)) coordinates ! i) ws = Inr (Some a)"
    by (auto simp: run_tasks_def Let_def)
  from i assms(2) have "i < length coordinates" by (auto simp: completion_order_def)
  with a show ?thesis by auto
qed

lemma run_tasks_rows:
  assumes "Inr (Some a) \<in> set (run_tasks str_num rnd ws coordinates completion)"
  shows "\<exists>r lat lon od. enhanced_row a = prepare_row r lat lon od ws"
proof -
  from assms obtain i where
    a: "analyze_coordinate_with_real_water str_num (rnd i)
              (map (\<lambda>c. (fst c, snd c, Map.empty)) coordinates ! i) ws = Inr (Some a)"
    by (auto simp: run_tasks_def Let_def)
  obtain lat lon od where
    "map (\<lambda>c. (fst c, snd c, Map.empty :: row)) coordinates ! i = (lat, lon, od)"
    using prod_cases3 by blast
  with a have "analyze_coordinate_with_real_water str_num (rnd i) (lat, lon, od) ws = Inr (Some a)"
    by simp
  from analyze_row(1) [OF this] show ?thesis by blast
qed

lemma accepted_results_total:
  "\<exists>p suitable. accepted_results str_num rnd ws coordinates completion m = Inr (p, suitable)"
proof -
  have "\<exists>st'. collect_results m (run_tasks str_num rnd ws coordinates completion) (0, []) = Inr st'"
    by (rule collect_results_total) (auto dest: run_tasks_results)
  then show ?thesis by (auto simp: accepted_results_def)
qed

lemma accepted_results_props:
  assumes "accepted_results str_num rnd ws coordinates completion m = Inr (p, suitable)"
  shows "set suitable \<subseteq> {a. Inr (Some a) \<in> set (run_tasks str_num rnd ws coordinates completion)}"
    and "\<forall>a \<in> set suitable. suitability_score a \<ge> 60"
    and "int (length suitable) \<le> max m 1"
    and "p \<le> length completion"
proof -
  note c = assms [unfolded accepted_results_def]
  from collect_results_props(1) [OF c]
  show "set suitable \<subseteq> {a. Inr (Some a) \<in> set (run_tasks str_num rnd ws coordinates completion)}"
    and "\<forall>a \<in> set suitable. suitability_score a \<ge> 60"
    by auto
  from collect_results_props(2) [OF c] show "int (length suitable) \<le> max m 1" by simp
  from collect_results_props(3) [OF c] show "p \<le> length completion"
    by (simp add: run_tasks_def Let_def)
qed

lemma top_areas_total:
  assumes "accepted_results str_num rnd ws coordinates completion m = Inr (p, suitable)"
  shows "\<exists>tops. format_areas 1 (take 10 suitable) = Inr tops"
proof (rule format_areas_total, intro ballI allI)
  fix a i assume "a \<in> set (take 10 suitable)"
  then have "a \<in> set suitable" by (rule in_set_takeD)
  with accepted_results_props(1) [OF assms]
  have "Inr (Some a) \<in> set (run_tasks str_num rnd ws coordinates completion)" by auto
  from run_tasks_rows [OF this] obtain r lat lon od where
    "enhanced_row a = prepare_row r lat lon od ws" by blast
  then show "\<exists>d. format_area i a = Inr d" by (rule format_area_prepare_row)
qed

lemma endpoint_shape:
  assumes "ws \<noteq> []"
  shows "\<exists>p suitable tops.
           accepted_results str_num rnd ws (sampled sample_size (load_coordinates_from_csv csv_rows))
             completion m = Inr (p, suitable)
           \<and> format_areas 1 (take 10 suitable) = Inr tops
           \<and> comprehensive_real_analysis str_num rnd completion ws csv_rows m sample_size
               = Completed (summarize p suitable) tops"
proof -
  let ?cs = "sampled sample_size (load_coordinates_from_csv csv_rows)"
  obtain p suitable where acc: "accepted_results str_num rnd ws ?cs completion m = Inr (p, suitable)"
    using accepted_results_total by blast
  obtain tops where tops: "format_areas 1 (take 10 suitable) = Inr tops"
    using top_areas_total [OF acc] by blast
  have "comprehensive_real_analysis str_num rnd completion ws csv_rows m sample_size
               = Completed (summarize p suitable) tops"
    using assms
    by (simp add: comprehensive_real_analysis_def Let_def acc tops [simplified] bind_result_def)
  with acc tops show ?thesis by blast
qed

subsection \<open>The example run, evaluated\<close>

lemma coast_nearest:
  "calculate_distance_to_nearest_water (Finite 36) (Finite 30) plain_sources =
     \<lparr>near_name = ''Aksu'', near_type = ''river'', distance_km = Finite 0\<rparr>"
  by (simp add: calculate_distance_to_nearest_water_def plain_sources_def consider_water_def
      degree_distance_km_def fsub_def float_result_small unknown_water_def Let_def)

lemma plateau_nearest:
  "calculate_distance_to_nearest_water (Finite 38) (Finite 30) plain_sources =
     \<lparr>near_name = ''Egirdir'', near_type = ''lake'', distance_km = Finite 0\<rparr>"
  by (simp add: calculate_distance_to_nearest_water_def plain_sources_def consider_water_def
      degree_distance_km_def fsub_def float_result_small unknown_water_def Let_def)

lemma py_round_int: "py_round (of_int n) = n"
  by (simp add: py_round_def Let_def)

lemma coast_score:
  "\<exists>reasons detailed_reason.
     calculate_comprehensive_suitability str_num
       (prepare_row coast_draws 36 30 Map.empty plain_sources) = Inr (78, reasons, detailed_reason)"
  by (simp add: calculate_comprehensive_suitability_def criteria_def criterion_defs
      landcover_bonus_def landcover_keywords_def py_str_def lower_agriculture get_default_def
      getitem_def as_number_def bind_result_def prepare_row_def Let_def coast_nearest
      coast_draws_def quick_elevation_estimate_def quick_slope_estimate_def uniform_def
      get_climate_data_def estimate_soil_quality_def py_round_digits_def py_round_def
      finite_value_def)

lemma plateau_score:
  "\<exists>reasons detailed_reason.
     calculate_comprehensive_suitability str_num
       (prepare_row plateau_draws 38 30 Map.empty plain_sources) = Inr (67, reasons, detailed_reason)"
  by (simp add: calculate_comprehensive_suitability_def criteria_def criterion_defs
      landcover_bonus_def landcover_keywords_def py_str_def lower_agriculture get_default_def
      getitem_def as_number_def bind_result_def prepare_row_def Let_def plateau_nearest
      plateau_draws_def quick_elevation_estimate_def quick_slope_estimate_def uniform_def
      get_climate_data_def estimate_soil_quality_def py_round_digits_def py_round_def
      finite_value_def)

lemma landcover_default:
  "landcover_bonus str_num (prepare_row rnd lat lon Map.empty ws) t = t"
  by (cases t)
     (simp add: landcover_bonus_def prepare_row_keys(12) get_default_def py_str_def
       lower_agriculture landcover_keywords_def)

lemma water_reasons:
  "water_criterion row t = Inr t' \<Longrightarrow> set (fst (snd t)) \<subseteq> set criterion_reasons
     \<Longrightarrow> set (fst (snd t')) \<subseteq> set criterion_reasons"
  by (cases t) (auto simp: water_criterion_def bind_result_Inr criterion_reasons_def split: if_splits)

lemma slope_reasons:
  "slope_criterion row t = Inr t' \<Longrightarrow> set (fst (snd t)) \<subseteq> set criterion_reasons
     \<Longrightarrow> set (fst (snd t')) \<subseteq> set criterion_reasons"
  by (cases t) (auto simp: slope_criterion_def bind_result_Inr criterion_reasons_def split: if_splits)

lemma elevation_reasons:
  "elevation_criterion row t = Inr t' \<Longrightarrow> set (fst (snd t)) \<subseteq> set criterion_reasons
     \<Longrightarrow> set (fst (snd t')) \<subseteq> set criterion_reasons"
  by (cases t)
     (auto simp: elevation_criterion_def bind_result_Inr criterion_reasons_def split: if_splits)

lemma soil_reasons:
  "soil_criterion row t = Inr t' \<Longrightarrow> set (fst (snd t)) \<subseteq> set criterion_reasons
     \<Longrightarrow> set (fst (snd t')) \<subseteq> set criterion_reasons"
  by (cases t) (auto simp: soil_criterion_def bind_result_Inr criterion_reasons_def split: if_splits)

lemma precipitation_reasons:
  "precipitation_criterion row t = Inr t' \<Longrightarrow> set (fst (snd t)) \<subseteq> set criterion_reasons
     \<Longrightarrow> set (fst (snd t')) \<subseteq> set criterion_reasons"
  by (cases t)
     (auto simp: precipitation_criterion_def bind_result_Inr criterion_reasons_def split: if_splits)

lemma sunshine_reasons:
  "sunshine_criterion row t = Inr t' \<Longrightarrow> set (fst (snd t)) \<subseteq> set criterion_reasons
     \<Longrightarrow> set (fst (snd t')) \<subseteq> set criterion_reasons"
  by (cases t)
     (auto simp: sunshine_criterion_def bind_result_Inr criterion_reasons_def split: if_splits)

lemma criteria_without_bonus:
  assumes "criteria str_num (prepare_row rnd lat lon Map.empty ws) = Inr t"
  shows "fst t \<le> 85" and "set (fst (snd t)) \<subseteq> set criterion_reasons"
proof -
  let ?row = "prepare_row rnd lat lon Map.empty ws"
  from assms obtain t1 t2 t3 t4 t5 t6 where
    s1: "water_criterion ?row (0, [], []) = Inr t1" and
    s2: "slope_criterion ?row t1 = Inr t2" and
    s3: "elevation_criterion ?row t2 = Inr t3" and
    s4: "soil_criterion ?row t3 = Inr t4" and
    s5: "precipitation_criterion ?row t4 = Inr t5" and
    s6: "sunshine_criterion ?row t5 = Inr t6" and
    s7: "t = landcover_bonus str_num ?row t6"
    by (rule criteria_steps)
  from s7 have t: "t = t6" by (simp add: landcover_default)
  have b1: "fst t1 \<le> 25" using water_points [OF s1] by auto
  have b2: "fst t2 - fst t1 \<le> 20" using slope_points [OF s2] by auto
  have b3: "fst t3 - fst t2 \<le> 15" using elevation_points [OF s3] by auto
  have b4: "fst t4 - fst t3 \<le> 10" using soil_points [OF s4] by auto
  have b5: "fst t5 - fst t4 \<le> 8" using precipitation_points [OF s5] by auto
  have b6: "fst t6 - fst t5 \<le> 7" using sunshine_points [OF s6] by auto
  from b1 b2 b3 b4 b5 b6 have "fst t6 \<le> 85" by linarith
  then show "fst t \<le> 85" by (simp add: t)
  have "set (fst (snd t1)) \<subseteq> set criterion_reasons" using water_reasons [OF s1] by simp
  from slope_reasons [OF s2 this] have "set (fst (snd t2)) \<subseteq> set criterion_reasons" .
  from elevation_reasons [OF s3 this] have "set (fst (snd t3)) \<subseteq> set criterion_reasons" .
  from soil_reasons [OF s4 this] have "set (fst (snd t4)) \<subseteq> set criterion_reasons" .
  from precipitation_reasons [OF s5 this] have "set (fst (snd t5)) \<subseteq> set criterion_reasons" .
  from sunshine_reasons [OF s6 this] have "set (fst (snd t6)) \<subseteq> set criterion_reasons" .
  with t show "set (fst (snd t)) \<subseteq> set criterion_reasons" by simp
qed

lemma analysis_without_bonus:
  assumes "analyze_coordinate_with_real_water str_num rnd (lat, lon, Map.empty) ws = Inr (Some a)"
  shows "enhanced_row a ''landcover_type'' = Some (Str ''agriculture'')"
    and "suitability_score a \<le> 85"
    and "\<exists>rs. suitability_reasons a = join '', '' rs \<and> set rs \<subseteq> set criterion_reasons"
proof -
  note r = analyze_row [OF assms]
  show "enhanced_row a ''landcover_type'' = Some (Str ''agriculture'')"
    by (simp add: r(1) prepare_row_keys(12) get_default_def)
  from r(2) obtain t where t: "criteria str_num (prepare_row rnd lat lon Map.empty ws) = Inr t"
    and res: "(case t of (score, reasons, details) \<Rightarrow>
       Inr (score, join '', '' reasons, join [Lit '' | ''] details))
       = (Inr (suitability_score a, suitability_reasons a, detailed_reasons a)
            :: error + (int \<times> string \<times> ftext))"
    unfolding calculate_comprehensive_suitability_def bind_result_Inr by blast
  from res have sc: "suitability_score a = fst t"
    and rs: "suitability_reasons a = join '', '' (fst (snd t))"
    by (cases t, simp)+
  from criteria_without_bonus [OF t] sc show "suitability_score a \<le> 85" by simp
  from criteria_without_bonus(2) [OF t] rs
  show "\<exists>rs. suitability_reasons a = join '', '' rs \<and> set rs \<subseteq> set criterion_reasons"
    by blast
qed

lemma coast_analysis:
  "\<exists>a. analyze_coordinate_with_real_water str_num coast_draws (36, 30, Map.empty) plain_sources
          = Inr (Some a) \<and> suitability_score a = 78"
proof -
  obtain reasons detailed_reason where
    "calculate_comprehensive_suitability str_num
       (prepare_row coast_draws 36 30 Map.empty plain_sources) = Inr (78, reasons, detailed_reason)"
    using coast_score by blast
  then show ?thesis by (simp add: analyze_cases)
qed

lemma plateau_analysis:
  "\<exists>a. analyze_coordinate_with_real_water str_num plateau_draws (38, 30, Map.empty) plain_sources
          = Inr (Some a) \<and> suitability_score a = 67"
proof -
  obtain reasons detailed_reason where
    "calculate_comprehensive_suitability str_num
       (prepare_row plateau_draws 38 30 Map.empty plain_sources) = Inr (67, reasons, detailed_reason)"
    using plateau_score by blast
  then show ?thesis by (simp add: analyze_cases)
qed

lemma two_coordinates_sampled:
  "sampled 5000 (load_coordinates_from_csv two_coordinates) = two_coordinates"
  by (simp add: sampled_def load_coordinates_from_csv_def two_coordinates_def)

lemma plain_sources_nonempty: "plain_sources \<noteq> []"
  by (simp add: plain_sources_def)

lemma endpoint_unfold:
  assumes "ws \<noteq> []"
    and "accepted_results str_num rnd ws (sampled sample_size (load_coordinates_from_csv csv_rows))
             completion m = Inr (p, suitable)"
    and "format_areas 1 (take 10 suitable) = Inr tops"
  shows "comprehensive_real_analysis str_num rnd completion ws csv_rows m sample_size
               = Completed (summarize p suitable) tops"
  using assms(1)
  by (simp add: comprehensive_real_analysis_def Let_def assms(2) assms(3) [simplified]
      bind_result_def)

lemma endpoint_completed:
  assumes "comprehensive_real_analysis str_num rnd completion ws csv_rows m sample_size
               = Completed s tops"
  shows "ws \<noteq> []"
    and "\<exists>p suitable.
           accepted_results str_num rnd ws (sampled sample_size (load_coordinates_from_csv csv_rows))
             completion m = Inr (p, suitable)
           \<and> format_areas 1 (take 10 suitable) = Inr tops
           \<and> s = summarize p suitable"
proof -
  show ne: "ws \<noteq> []"
    using assms by (auto simp: comprehensive_real_analysis_def)
  from endpoint_shape [OF ne, of str_num rnd sample_size csv_rows completion m] assms
  show "\<exists>p suitable.
           accepted_results str_num rnd ws (sampled sample_size (load_coordinates_from_csv csv_rows))
             completion m = Inr (p, suitable)
           \<and> format_areas 1 (take 10 suitable) = Inr tops
           \<and> s = summarize p suitable"
    by auto
qed

lemma two_tasks:
  assumes "analyze_coordinate_with_real_water str_num coast_draws (36, 30, Map.empty) plain_sources
             = Inr (Some a)"
    and "analyze_coordinate_with_real_water str_num plateau_draws (38, 30, Map.empty) plain_sources
             = Inr (Some b)"
  shows "run_tasks str_num two_draws plain_sources two_coordinates [1, 0]
           = [Inr (Some b), Inr (Some a)]"
    and "run_tasks str_num two_draws plain_sources two_coordinates [0, 1]
           = [Inr (Some a), Inr (Some b)]"
  using assms
  by (simp_all add: run_tasks_def two_coordinates_def two_draws_def)

lemma two_completion_orders:
  "completion_order (length two_coordinates) [1, 0]"
  "completion_order (length two_coordinates) [0, 1]"
  by (auto simp: completion_order_def two_coordinates_def)

lemma late_better_run:
  "\<exists>s d1 d2.
     comprehensive_real_analysis str_num two_draws [1, 0] plain_sources two_coordinates 100 5000
       = Completed s [d1, d2]
     \<and> area_rank d1 = 1 \<and> area_score d1 = 67 \<and> area_rank d2 = 2 \<and> area_score d2 = 78"
proof -
  obtain a where a: "analyze_coordinate_with_real_water str_num coast_draws (36, 30, Map.empty)
      plain_sources = Inr (Some a)" and sa: "suitability_score a = 78"
    using coast_analysis by blast
  obtain b where b: "analyze_coordinate_with_real_water str_num plateau_draws (38, 30, Map.empty)
      plain_sources = Inr (Some b)" and sb: "suitability_score b = 67"
    using plateau_analysis by blast
  have acc: "accepted_results str_num two_draws plain_sources
      (sampled 5000 (load_coordinates_from_csv two_coordinates)) [1, 0] 100 = Inr (2, [b, a])"
    unfolding accepted_results_def two_coordinates_sampled two_tasks(1) [OF a b]
    by (simp add: sa sb)
  obtain d1 where d1: "format_area (Suc 0) b = Inr d1"
    using format_area_prepare_row [OF analyze_row(1) [OF b]] by blast
  obtain d2 where d2: "format_area (Suc (Suc 0)) a = Inr d2"
    using format_area_prepare_row [OF analyze_row(1) [OF a]] by blast
  have tops: "format_areas 1 (take 10 [b, a]) = Inr [d1, d2]"
    by (simp add: d1 d2 bind_result_def)
  from endpoint_unfold [OF plain_sources_nonempty acc tops] format_area_fields [OF d1]
    format_area_fields [OF d2] sa sb
  show ?thesis by auto
qed

lemma negative_maximum_run:
  "\<exists>s tops.
     comprehensive_real_analysis str_num two_draws [0, 1] plain_sources two_coordinates (- 5) 5000
       = Completed s tops
     \<and> total_analyzed s = 1 \<and> productive_areas s = 1"
proof -
  obtain a where a: "analyze_coordinate_with_real_water str_num coast_draws (36, 30, Map.empty)
      plain_sources = Inr (Some a)" and sa: "suitability_score a = 78"
    using coast_analysis by blast
  obtain b where b: "analyze_coordinate_with_real_water str_num plateau_draws (38, 30, Map.empty)
      plain_sources = Inr (Some b)" and sb: "suitability_score b = 67"
    using plateau_analysis by blast
  have acc: "accepted_results str_num two_draws plain_sources
      (sampled 5000 (load_coordinates_from_csv two_coordinates)) [0, 1] (- 5) = Inr (1, [a])"
    unfolding accepted_results_def two_coordinates_sampled two_tasks(2) [OF a b]
    by (simp add: sa sb)
  obtain tops where tops: "format_areas 1 (take 10 [a]) = Inr tops"
    using top_areas_total [OF acc] by blast
  from endpoint_unfold [OF plain_sources_nonempty acc tops]
  show ?thesis by (auto simp: summarize_def)
qed

lemma top_areas_origin:
  assumes "comprehensive_real_analysis str_num rnd completion ws csv_rows m sample_size
               = Completed s tops"
    and "d \<in> set tops"
  shows "\<exists>a i. Inr (Some a) \<in> set (run_tasks str_num rnd ws
                   (sampled sample_size (load_coordinates_from_csv csv_rows)) completion)
               \<and> format_area i a = Inr d"
proof -
  from endpoint_completed(2) [OF assms(1)] obtain p suitable where
    acc: "accepted_results str_num rnd ws (sampled sample_size (load_coordinates_from_csv csv_rows))
             completion m = Inr (p, suitable)"
    and tops: "format_areas 1 (take 10 suitable) = Inr tops"
    by blast
  from format_areas_props [OF tops] have len: "length tops = length (take 10 suitable)"
    and each: "\<forall>k < length (take 10 suitable).
                 format_area (1 + k) (take 10 suitable ! k) = Inr (tops ! k)"
    by blast+
  from assms(2) obtain k where k: "k < length tops" and d: "d = tops ! k"
    by (auto simp: in_set_conv_nth)
  from k len have k': "k < length (take 10 suitable)" by simp
  with each d have f: "format_area (1 + k) (take 10 suitable ! k) = Inr d" by simp
  from k' have "take 10 suitable ! k \<in> set (take 10 suitable)" by (rule nth_mem)
  then have "take 10 suitable ! k \<in> set suitable" by (rule in_set_takeD)
  with accepted_results_props(1) [OF acc]
  have "Inr (Some (take 10 suitable ! k)) \<in> set (run_tasks str_num rnd ws
                   (sampled sample_size (load_coordinates_from_csv csv_rows)) completion)"
    by auto
  with f show ?thesis by blast
qed

lemma no_coordinates_at_zero:
  "sampled 0 (load_coordinates_from_csv []) = []"
  by (simp add: sampled_def load_coordinates_from_csv_def sample_coordinates_def slice_to_def)

lemma bonus_reason_not_criterion:
  "''existing agricultural land'' \<notin> set criterion_reasons"
  by (simp add: criterion_reasons_def)

lemma agriculture_no_keyword:
  "\<forall>k \<in> set landcover_keywords. \<not> contains ''agriculture'' k"
  by (simp add: landcover_keywords_def)

lemma startswith_set: "startswith s k \<Longrightarrow> set k \<subseteq> set s"
  by (induction s k rule: startswith.induct) auto

lemma contains_set: "contains s k \<Longrightarrow> set k \<subseteq> set s"
proof (induction s)
  case Nil
  then show ?case by simp
next
  case (Cons c cs)
  from Cons.prems have "startswith (c # cs) k \<or> contains cs k" by simp
  then show ?case
  proof
    assume "startswith (c # cs) k"
    then show ?thesis by (rule startswith_set)
  next
    assume "contains cs k"
    from Cons.IH [OF this] show ?thesis by auto
  qed
qed

lemma join_set: "set (join sep xs) \<subseteq> set sep \<union> (\<Union>x \<in> set xs. set x)"
  by (induction sep xs rule: join.induct) auto

lemma criterion_reasons_no_x:
  "\<forall>r \<in> set criterion_reasons. CHR ''x'' \<notin> set r"
  by (simp add: criterion_reasons_def)

lemma joined_reasons_without_bonus:
  assumes "set rs \<subseteq> set criterion_reasons"
  shows "\<not> contains (join '', '' rs) ''existing agricultural land''"
proof
  assume "contains (join '', '' rs) ''existing agricultural land''"
  from contains_set [OF this] have "CHR ''x'' \<in> set (join '', '' rs)" by simp
  with join_set [of "'', ''" rs] have "CHR ''x'' \<in> (\<Union>x \<in> set rs. set x)" by auto
  then obtain r where "r \<in> set rs" "CHR ''x'' \<in> set r" by blast
  with assms criterion_reasons_no_x show False by blast
qed

lemma task_without_bonus:
  assumes "completion_order (length coordinates) completion"
    and "Inr (Some a) \<in> set (run_tasks str_num rnd ws coordinates completion)"
  shows "enhanced_row a ''landcover_type'' = Some (Str ''agriculture'')"
    and "suitability_score a \<le> 85"
    and "\<exists>rs. suitability_reasons a = join '', '' rs \<and> set rs \<subseteq> set criterion_reasons"
    and "\<not> contains (suitability_reasons a) ''existing agricultural land''"
proof -
  from run_tasks_origin [OF assms(2) assms(1)] obtain i where
    a: "analyze_coordinate_with_real_water str_num (rnd i)
             (fst (coordinates ! i), snd (coordinates ! i), Map.empty) ws = Inr (Some a)"
    by blast
  from analysis_without_bonus(1) [OF a]
  show "enhanced_row a ''landcover_type'' = Some (Str ''agriculture'')" .
  from analysis_without_bonus(2) [OF a] show "suitability_score a \<le> 85" .
  from analysis_without_bonus(3) [OF a]
  show r: "\<exists>rs. suitability_reasons a = join '', '' rs \<and> set rs \<subseteq> set criterion_reasons" .
  then obtain rs where "suitability_reasons a = join '', '' rs" "set rs \<subseteq> set criterion_reasons"
    by blast
  with joined_reasons_without_bonus
  show "\<not> contains (suitability_reasons a) ''existing agricultural land''" by simp
qed

lemma collect_results_order:
  assumes "collect_results m fs (p, acc) = Inr (p', acc')"
  shows "\<exists>n \<le> length fs. p' = p + n \<and> acc' = acc @ qualifying (take n fs)"
  using assms
proof (induction fs arbitrary: p acc)
  case Nil
  then show ?case by simp
next
  case (Cons f fs)
  show ?case
  proof (cases f)
    case (Inl e)
    with Cons.prems show ?thesis by simp
  next
    case (Inr r)
    show ?thesis
    proof (cases r)
      case None
      with Inr Cons.prems have "collect_results m fs (p + 1, acc) = Inr (p', acc')" by simp
      from Cons.IH [OF this] obtain n where "n \<le> length fs" "p' = p + 1 + n"
        "acc' = acc @ qualifying (take n fs)" by blast
      with Inr None show ?thesis
        by (intro exI [of _ "Suc n"]) simp
    next
      case (Some a)
      show ?thesis
      proof (cases "suitability_score a \<ge> 60")
        case False
        with Inr Some Cons.prems have "collect_results m fs (p + 1, acc) = Inr (p', acc')"
          by simp
        from Cons.IH [OF this] obtain n where "n \<le> length fs" "p' = p + 1 + n"
          "acc' = acc @ qualifying (take n fs)" by blast
        with Inr Some False show ?thesis
          by (intro exI [of _ "Suc n"]) simp
      next
        case True
        show ?thesis
        proof (cases "int (length (acc @ [a])) \<ge> m")
          case stop: True
          with Inr Some True Cons.prems have "p' = p + 1" "acc' = acc @ [a]" by simp_all
          with Inr Some True show ?thesis
            by (intro exI [of _ "Suc 0"]) simp
        next
          case go: False
          with Inr Some True Cons.prems
          have "collect_results m fs (p + 1, acc @ [a]) = Inr (p', acc')" by simp
          from Cons.IH [OF this] obtain n where "n \<le> length fs" "p' = p + 1 + n"
            "acc' = (acc @ [a]) @ qualifying (take n fs)" by blast
          with Inr Some True show ?thesis
            by (intro exI [of _ "Suc n"]) simp
        qed
      qed
    qed
  qed
qed

lemma run_tasks_take:
  "take n (run_tasks str_num rnd ws coordinates completion)
     = run_tasks str_num rnd ws coordinates (take n completion)"
  by (simp add: run_tasks_def Let_def take_map)

lemma accepted_in_completion_order:
  assumes "accepted_results str_num rnd ws coordinates completion m = Inr (p, suitable)"
  shows "p \<le> length completion"
    and "suitable = qualifying (run_tasks str_num rnd ws coordinates (take p completion))"
proof -
  from collect_results_order [OF assms [unfolded accepted_results_def]]
  obtain n where n: "n \<le> length (run_tasks str_num rnd ws coordinates completion)"
    and p: "p = n"
    and s: "suitable = qualifying (take n (run_tasks str_num rnd ws coordinates completion))"
    by auto
  from n p show "p \<le> length completion" by (simp add: run_tasks_def Let_def)
  from s p show "suitable = qualifying (run_tasks str_num rnd ws coordinates (take p completion))"
    by (simp add: run_tasks_take)
qed

lemma early_better_run:
  "\<exists>s d1 d2.
     comprehensive_real_analysis str_num two_draws [0, 1] plain_sources two_coordinates 100 5000
       = Completed s [d1, d2]
     \<and> area_rank d1 = 1 \<and> area_score d1 = 78 \<and> area_rank d2 = 2 \<and> area_score d2 = 67"
proof -
  obtain a where a: "analyze_coordinate_with_real_water str_num coast_draws (36, 30, Map.empty)
      plain_sources = Inr (Some a)" and sa: "suitability_score a = 78"
    using coast_analysis by blast
  obtain b where b: "analyze_coordinate_with_real_water str_num plateau_draws (38, 30, Map.empty)
      plain_sources = Inr (Some b)" and sb: "suitability_score b = 67"
    using plateau_analysis by blast
  have acc: "accepted_results str_num two_draws plain_sources
      (sampled 5000 (load_coordinates_from_csv two_coordinates)) [0, 1] 100 = Inr (2, [a, b])"
    unfolding accepted_results_def two_coordinates_sampled two_tasks(2) [OF a b]
    by (simp add: sa sb)
  obtain d1 where d1: "format_area (Suc 0) a = Inr d1"
    using format_area_prepare_row [OF analyze_row(1) [OF a]] by blast
  obtain d2 where d2: "format_area (Suc (Suc 0)) b = Inr d2"
    using format_area_prepare_row [OF analyze_row(1) [OF b]] by blast
  have tops: "format_areas 1 (take 10 [a, b]) = Inr [d1, d2]"
    by (simp add: d1 d2 bind_result_def)
  from endpoint_unfold [OF plain_sources_nonempty acc tops] format_area_fields [OF d1]
    format_area_fields [OF d2] sa sb
  show ?thesis by auto
qed

subsection \<open>Auxiliary facts about the loader\<close>

lemma dict_set_keys: "fst ` set (dict_set d k v) = insert k (fst ` set d)"
proof (induction d)
  case Nil
  show ?case by simp
next
  case (Cons kv d)
  obtain k' v' where kv: "kv = (k', v')" by (cases kv)
  show ?case
  proof (cases "k' = k")
    case True
    then show ?thesis by (simp add: kv)
  next
    case False
    with Cons.IH show ?thesis by (simp add: kv insert_commute)
  qed
qed

lemma dict_set_distinct: "distinct (map fst d) \<Longrightarrow> distinct (map fst (dict_set d k v))"
proof (induction d)
  case Nil
  show ?case by simp
next
  case (Cons kv d)
  obtain k' v' where kv: "kv = (k', v')" by (cases kv)
  from Cons.prems have d: "distinct (map fst d)" and f: "k' \<notin> fst ` set d"
    by (simp_all add: kv)
  show ?case
  proof (cases "k' = k")
    case True
    with d f show ?thesis by (simp add: kv)
  next
    case False
    with Cons.IH [OF d] f show ?thesis by (simp add: kv dict_set_keys)
  qed
qed

lemma dict_set_fresh: "k \<notin> fst ` set d \<Longrightarrow> dict_set d k v = d @ [(k, v)]"
  by (induction d) force+

lemma dict_set_values: "snd ` set (dict_set d k v) \<subseteq> insert v (snd ` set d)"
proof (induction d)
  case Nil
  show ?case by simp
next
  case (Cons kv d)
  obtain k' v' where kv: "kv = (k', v')" by (cases kv)
  show ?case
  proof (cases "k' = k")
    case True
    then show ?thesis by (auto simp: kv)
  next
    case False
    with Cons.IH show ?thesis by (auto simp: kv)
  qed
qed

lemma foldl_dict_set_distinct:
  "distinct (map fst d) \<Longrightarrow>
     distinct (map fst (foldl (\<lambda>d kv. dict_set d (fst kv) (snd kv)) d kvs))"
  by (induction kvs arbitrary: d) (auto simp: dict_set_distinct)

lemma foldl_dict_set_values:
  "set (map snd (foldl (\<lambda>d kv. dict_set d (fst kv) (snd kv)) d kvs))
     \<subseteq> set (map snd d) \<union> set (map snd kvs)"
proof (induction kvs arbitrary: d)
  case Nil
  then show ?case by simp
next
  case (Cons kv kvs)
  from Cons.IH [of "dict_set d (fst kv) (snd kv)"] dict_set_values [of d "fst kv" "snd kv"]
  show ?case by (simp add: subset_iff) blast
qed

lemma foldl_dict_set_fresh:
  "distinct (map fst (d @ kvs)) \<Longrightarrow>
     foldl (\<lambda>d kv. dict_set d (fst kv) (snd kv)) d kvs = d @ kvs"
proof (induction kvs arbitrary: d)
  case Nil
  then show ?case by simp
next
  case (Cons kv kvs)
  from Cons.prems have f: "fst kv \<notin> fst ` set d" by auto
  from Cons.prems have "distinct (map fst ((d @ [kv]) @ kvs))" by simp
  from Cons.IH [OF this] f show ?case by (simp add: dict_set_fresh)
qed

lemma dict_of_distinct: "distinct (map fst (dict_of kvs))"
  unfolding dict_of_def by (rule foldl_dict_set_distinct) simp

lemma dict_of_values: "set (map snd (dict_of kvs)) \<subseteq> set (map snd kvs)"
  unfolding dict_of_def using foldl_dict_set_values [of "[]" kvs] by simp

lemma dict_of_fresh: "distinct (map fst kvs) \<Longrightarrow> dict_of kvs = kvs"
  unfolding dict_of_def using foldl_dict_set_fresh [of "[]" kvs] by simp

lemma well_formed_PList: "well_formed (PList xs) \<longleftrightarrow> (\<forall>x \<in> set xs. well_formed x)"
  by (simp add: list_all_iff)

lemma well_formed_PDict:
  "well_formed (PDict kvs) \<longleftrightarrow> distinct (map fst kvs) \<and> (\<forall>v \<in> set (map snd kvs). well_formed v)"
  by (auto simp: list_all_iff)

lemma well_formed_from_json: "well_formed (from_json j)"
proof (induction j)
  case (JArray js)
  then show ?case by (simp add: list_all_iff)
next
  case (JObject kvs)
  have "\<forall>v \<in> set (map snd (map (map_prod id from_json) kvs)). well_formed v"
    using JObject by (fastforce simp: snds.simps)
  with dict_of_values [of "map (map_prod id from_json) kvs"]
  have "\<forall>v \<in> set (map snd (dict_of (map (map_prod id from_json) kvs))). well_formed v"
    by blast
  with dict_of_distinct show ?case
    unfolding from_json.simps well_formed_PDict by blast
qed simp_all

lemma json_round_trip: "well_formed x \<Longrightarrow> from_json (to_json x) = x"
proof (induction x)
  case (PList xs)
  then show ?case by (simp add: list_all_iff map_idI)
next
  case (PDict kvs)
  from PDict.prems have d: "distinct (map fst kvs)"
    and w: "\<forall>v \<in> set (map snd kvs). well_formed v"
    unfolding well_formed_PDict by blast+
  have "map (map_prod id from_json \<circ> map_prod id to_json) kvs = kvs"
  proof (rule map_idI)
    show "(map_prod id from_json \<circ> map_prod id to_json) kv = kv" if "kv \<in> set kvs" for kv
    proof -
      obtain k v where kv: "kv = (k, v)" by (cases kv)
      with that w have "well_formed v" by force
      moreover from that kv have "v \<in> Basic_BNFs.snds kv" by (simp add: snds.simps)
      ultimately have "from_json (to_json v) = v" using PDict.IH that by blast
      with kv show ?thesis by simp
    qed
  qed
  with d show ?case by (simp add: dict_of_fresh)
qed simp_all

lemma feature_shape:
  assumes "f \<in> set (features_of e)"
  shows "\<exists>lat lon name ty.
           f = PDict [(''lat'', lat), (''lon'', lon), (''name'', name), (''type'', PStr ty),
                      (''source'', PStr ''OpenStreetMap'')]
           \<and> well_formed lat \<and> well_formed lon \<and> well_formed name"
proof -
  let ?tags = "dict_of (map (map_prod id from_json) (el_tags e))"
  have tv: "\<forall>v \<in> snd ` set ?tags. well_formed v"
  proof
    fix v assume "v \<in> snd ` set ?tags"
    with dict_of_values [of "map (map_prod id from_json) (el_tags e)"]
    have "v \<in> set (map snd (map (map_prod id from_json) (el_tags e)))" by auto
    then obtain kv where "v = from_json (snd kv)" by auto
    then show "well_formed v" by (simp add: well_formed_from_json)
  qed
  have name: "well_formed (dict_get ?tags ''name'' (PStr ''Unnamed''))"
  proof (cases "map_of ?tags ''name''")
    case None
    then show ?thesis by (simp add: dict_get_def)
  next
    case (Some v)
    then have "(''name'', v) \<in> set ?tags" by (rule map_of_SomeD)
    then have "v \<in> snd ` set ?tags" by force
    with tv have "well_formed v" by blast
    with Some show ?thesis by (simp add: dict_get_def)
  qed
  from assms have "el_center e \<noteq> None \<and> water_type_of ?tags \<noteq> []
      \<and> f = PDict [(''lat'', from_json (fst (the (el_center e)))),
                     (''lon'', from_json (snd (the (el_center e)))),
                     (''name'', dict_get ?tags ''name'' (PStr ''Unnamed'')),
                     (''type'', PStr (water_type_of ?tags)),
                     (''source'', PStr ''OpenStreetMap'')]"
    by (cases "el_center e"; cases "water_type_of ?tags = []")
       (simp_all add: features_of_def Let_def)
  with name well_formed_from_json show ?thesis by blast
qed

lemma features_well_formed:
  "well_formed (PList (concat (map features_of elements)))"
proof -
  have "well_formed f" if "f \<in> set (concat (map features_of elements))" for f
  proof -
    from that obtain e where "f \<in> set (features_of e)" by auto
    from feature_shape [OF this] show ?thesis by (auto simp: list_all_iff)
  qed
  then show ?thesis unfolding well_formed_PList by blast
qed

lemma river_features:
  "concat (map features_of river_elements) =
     [PDict [(''lat'', PInt 36), (''lon'', PFloat (Finite 30.5)), (''name'', PStr ''Aksu''),
             (''type'', PStr ''river''), (''source'', PStr ''OpenStreetMap'')],
      PDict [(''lat'', PFloat (Finite 38)), (''lon'', PFloat (Finite 30)),
             (''name'', PStr ''Unnamed''), (''type'', PStr ''lake''),
             (''source'', PStr ''OpenStreetMap'')]]"
  by (simp add: river_elements_def features_of_def dict_of_def water_type_of_def dict_get_def
      Let_def)

subsection \<open>C1: the score is a sum of at most one tier per criterion\<close>

text \<open>
  Claim C1. Whenever \<^const>\<open>calculate_comprehensive_suitability\<close> returns a score for a
  row, the score is a sum of seven contributions, one per criterion, each of which is
  either 0 or one of the tiers of that criterion (water 25 or 18, slope 20 or 15, elevation
  15 or 10, soil 10 or 7, precipitation 8, sunshine 7, landcover 8); hence it lies between
  0 and 93.
\<close>

theorem suitability_score_is_tier_sum:
  assumes "calculate_comprehensive_suitability str_num row = Inr (score, reasons, detailed_reason)"
  shows "(\<exists>w sl el so p su lc.
           w \<in> {0, 18, 25} \<and> sl \<in> {0, 15, 20} \<and> el \<in> {0, 10, 15} \<and> so \<in> {0, 7, 10}
           \<and> p \<in> {0, 8} \<and> su \<in> {0, 7} \<and> lc \<in> {0, 8}
           \<and> score = w + sl + el + so + p + su + lc)
         \<and> 0 \<le> score \<and> score \<le> 93"
proof -
  from assms obtain t where t: "criteria str_num row = Inr t" and sc: "score = fst t"
    by (rule calculate_score)
  from criteria_points [OF t] obtain w sl el so p su lc where
    m: "w \<in> {0, 18, 25}" "sl \<in> {0, 15, 20}" "el \<in> {0, 10, 15}" "so \<in> {0, 7, 10}"
       "p \<in> {0, 8}" "su \<in> {0, 7}" "lc \<in> {0, 8}"
    and sum: "fst t = w + sl + el + so + p + su + lc"
    by (elim exE conjE)
  have b1: "0 \<le> w \<and> w \<le> 25" using m(1) by auto
  have b2: "0 \<le> sl \<and> sl \<le> 20" using m(2) by auto
  have b3: "0 \<le> el \<and> el \<le> 15" using m(3) by auto
  have b4: "0 \<le> so \<and> so \<le> 10" using m(4) by auto
  have b5: "0 \<le> p \<and> p \<le> 8" using m(5) by auto
  have b6: "0 \<le> su \<and> su \<le> 7" using m(6) by auto
  have b7: "0 \<le> lc \<and> lc \<le> 8" using m(7) by auto
  from sum sc have e: "score = w + sl + el + so + p + su + lc" by simp
  from b1 b2 b3 b4 b5 b6 b7 e have r: "0 \<le> score" "score \<le> 93" by linarith+
  from m e have "\<exists>w sl el so p su lc.
           w \<in> {0, 18, 25} \<and> sl \<in> {0, 15, 20} \<and> el \<in> {0, 10, 15} \<and> so \<in> {0, 7, 10}
           \<and> p \<in> {0, 8} \<and> su \<in> {0, 7} \<and> lc \<in> {0, 8}
           \<and> score = w + sl + el + so + p + su + lc"
    by (intro exI conjI)
  with r show ?thesis by (intro conjI)
qed

lemma steppe_row_result:
  "calculate_comprehensive_suitability (\<lambda>r. []) steppe_row =
     Inr (42, ''close to water, medium elevation, good soil, ideal sunshine'',
          [Lit ''Water: '', Fixed 1 7.5, Lit ''km ('', Val (Str ''Unnamed''), Lit '') - GOOD'',
           Lit '' | '', Lit ''Elevation: '', Val (Num 900), Lit ''m - GOOD'',
           Lit '' | '', Lit ''Soil: '', Val (Str ''Clay-Loamy''), Lit '' (pH:'', Val (Num 7.1),
           Lit '') - GOOD'',
           Lit '' | '', Lit ''Sunshine: '', Val (Num 2650), Lit '' hours - EXCELLENT''])"
  by (simp add: calculate_comprehensive_suitability_def criteria_def criterion_defs
      landcover_bonus_def landcover_keywords_def py_str_def lower_agriculture
      steppe_row_def getitem_def as_number_def bind_result_def)

theorem suitability_score_is_tier_sum_witness:
  "(\<exists>reasons detailed_reason.
      calculate_comprehensive_suitability (\<lambda>r. []) steppe_row = Inr (42, reasons, detailed_reason))
   \<and> (\<exists>w sl el so p su lc.
           w \<in> {0, 18, 25} \<and> sl \<in> {0, 15, 20} \<and> el \<in> {0, 10, 15} \<and> so \<in> {0, 7, 10}
           \<and> p \<in> {0, 8} \<and> su \<in> {0, 7} \<and> lc \<in> {0, 8}
           \<and> (42::int) = w + sl + el + so + p + su + lc)
   \<and> (0::int) \<le> 42 \<and> (42::int) \<le> 93"
proof -
  have a: "\<exists>reasons detailed_reason.
      calculate_comprehensive_suitability (\<lambda>r. []) steppe_row = Inr (42, reasons, detailed_reason)"
    using steppe_row_result by blast
  from suitability_score_is_tier_sum [OF steppe_row_result] a show ?thesis
    by (intro conjI) blast+
qed


subsection \<open>C2: thresholds and monotonicity of the category\<close>

lemma category_rank_categorize:
  "category_rank (categorize_suitability s) =
     (if s \<ge> 80 then 3 else if s \<ge> 70 then 2 else if s \<ge> 60 then 1 else 0)"
  by (simp add: categorize_suitability_def category_rank_def)

text \<open>
  Claim C2. \<^const>\<open>categorize_suitability\<close> is a total function of the score (a HOL
  function, hence deterministic) that returns "HIGHLY PRODUCTIVE" exactly for scores of at
  least 80, "PRODUCTIVE" exactly for scores from 70 to 79, "MODERATELY PRODUCTIVE" exactly
  for scores from 60 to 69 and "LOW PRODUCTIVITY" exactly for scores below 60; it is
  non-decreasing in the score with respect to the order of the four labels; and the scores
  80, 79 and 59 get "HIGHLY PRODUCTIVE", "PRODUCTIVE" and "LOW PRODUCTIVITY".
\<close>

theorem categorize_suitability_thresholds:
  "(categorize_suitability s = ''HIGHLY PRODUCTIVE'' \<longleftrightarrow> s \<ge> 80)
   \<and> (categorize_suitability s = ''PRODUCTIVE'' \<longleftrightarrow> 70 \<le> s \<and> s < 80)
   \<and> (categorize_suitability s = ''MODERATELY PRODUCTIVE'' \<longleftrightarrow> 60 \<le> s \<and> s < 70)
   \<and> (categorize_suitability s = ''LOW PRODUCTIVITY'' \<longleftrightarrow> s < 60)
   \<and> (\<forall>t. s \<le> t \<longrightarrow>
          category_rank (categorize_suitability s) \<le> category_rank (categorize_suitability t))
   \<and> categorize_suitability 80 = ''HIGHLY PRODUCTIVE''
   \<and> categorize_suitability 79 = ''PRODUCTIVE''
   \<and> categorize_suitability 59 = ''LOW PRODUCTIVITY''"
proof -
  have mono: "\<forall>t. s \<le> t \<longrightarrow>
      category_rank (categorize_suitability s) \<le> category_rank (categorize_suitability t)"
    by (simp add: category_rank_categorize)
  have thr: "(categorize_suitability s = ''HIGHLY PRODUCTIVE'' \<longleftrightarrow> s \<ge> 80)
     \<and> (categorize_suitability s = ''PRODUCTIVE'' \<longleftrightarrow> 70 \<le> s \<and> s < 80)
     \<and> (categorize_suitability s = ''MODERATELY PRODUCTIVE'' \<longleftrightarrow> 60 \<le> s \<and> s < 70)
     \<and> (categorize_suitability s = ''LOW PRODUCTIVITY'' \<longleftrightarrow> s < 60)"
    by (simp add: categorize_suitability_def)
  have ex: "categorize_suitability 80 = ''HIGHLY PRODUCTIVE''
     \<and> categorize_suitability 79 = ''PRODUCTIVE''
     \<and> categorize_suitability 59 = ''LOW PRODUCTIVITY''"
    by (simp add: categorize_suitability_def)
  from thr mono ex show ?thesis by blast
qed

theorem categorize_suitability_thresholds_witness:
  "(65::int) \<le> 72
   \<and> categorize_suitability 65 = ''MODERATELY PRODUCTIVE''
   \<and> categorize_suitability 72 = ''PRODUCTIVE''
   \<and> category_rank (categorize_suitability 65) \<le> category_rank (categorize_suitability 72)"
proof -
  have le: "(65::int) \<le> 72" by simp
  have a: "categorize_suitability 65 = ''MODERATELY PRODUCTIVE''"
    using categorize_suitability_thresholds [of 65] by simp
  have b: "categorize_suitability 72 = ''PRODUCTIVE''"
    using categorize_suitability_thresholds [of 72] by simp
  have c: "category_rank (categorize_suitability 65) \<le> category_rank (categorize_suitability 72)"
    using categorize_suitability_thresholds [of 65] le by blast
  from le a b c show ?thesis by blast
qed

subsection \<open>C3: the nearest water source\<close>







subsection \<open>C4: the bounding check\<close>




subsection \<open>C5: the number of accepted results\<close>

text \<open>
  With \<open>max_areas = -5\<close> the bound \<open>max_areas + pool_size - 1\<close> is 0, yet the run of the
  example accepts one result: the loop compares the length with \<open>max_areas\<close> only after it
  has appended.
\<close>

theorem negative_maximum_exceeds_bound:
  "\<exists>s tops.
     comprehensive_real_analysis (\<lambda>r. []) two_draws [0, 1] plain_sources two_coordinates (- 5) 5000
       = Completed s tops
     \<and> completion_order (length (sampled 5000 (load_coordinates_from_csv two_coordinates))) [0, 1]
     \<and> productive_areas s = 1
     \<and> \<not> int (productive_areas s) \<le> - 5 + max_workers - 1"
proof -
  from negative_maximum_run [of "\<lambda>r. []"] obtain s tops where
    "comprehensive_real_analysis (\<lambda>r. []) two_draws [0, 1] plain_sources two_coordinates (- 5) 5000
       = Completed s tops" and "productive_areas s = 1"
    by blast
  then show ?thesis
    using two_completion_orders(2) by (auto simp: max_workers_def two_coordinates_sampled)
qed

text \<open>
  Claim C5, amended. In every run of the endpoint that completes, the number of accepted
  results, reported as \<open>productive_areas\<close>, is at most the larger of \<open>max_areas\<close> and 1; so
  for \<open>max_areas \<ge> -4\<close> it is at most \<open>max_areas + pool_size - 1\<close> with the pool size 6.
  The accepted results are those that the collection loop returns, and each of them has a
  score of at least 60.
\<close>

theorem accepted_count_bound:
  assumes "comprehensive_real_analysis str_num rnd completion water_sources csv_rows max_areas
             sample_size = Completed s tops"
  shows "int (productive_areas s) \<le> max max_areas 1
     \<and> (- 4 \<le> max_areas \<longrightarrow> int (productive_areas s) \<le> max_areas + max_workers - 1)
     \<and> (\<exists>processed suitable_areas.
           accepted_results str_num rnd water_sources
             (sampled sample_size (load_coordinates_from_csv csv_rows)) completion max_areas
             = Inr (processed, suitable_areas)
           \<and> productive_areas s = length suitable_areas
           \<and> (\<forall>a \<in> set suitable_areas. suitability_score a \<ge> 60))"
proof -
  from endpoint_completed(2) [OF assms] obtain p suitable where
    acc: "accepted_results str_num rnd water_sources
            (sampled sample_size (load_coordinates_from_csv csv_rows)) completion max_areas
            = Inr (p, suitable)"
    and s: "s = summarize p suitable"
    by blast
  from s have n: "productive_areas s = length suitable" by (simp add: summarize_def)
  from accepted_results_props(3) [OF acc] n
  have b: "int (productive_areas s) \<le> max max_areas 1" by simp
  then have "- 4 \<le> max_areas \<longrightarrow> int (productive_areas s) \<le> max_areas + max_workers - 1"
    unfolding max_workers_def by linarith
  with b acc n accepted_results_props(2) [OF acc] show ?thesis by blast
qed

theorem accepted_count_bound_witness:
  "\<exists>s tops.
     comprehensive_real_analysis (\<lambda>r. []) two_draws [0, 1] plain_sources two_coordinates 1 5000
       = Completed s tops
     \<and> (- 4 :: int) \<le> 1
     \<and> int (productive_areas s) \<le> max 1 1
     \<and> int (productive_areas s) \<le> 1 + max_workers - 1"
proof -
  from endpoint_shape [OF plain_sources_nonempty, of "\<lambda>r. []" two_draws 5000 two_coordinates
      "[0, 1]" 1]
  obtain s tops where
    c: "comprehensive_real_analysis (\<lambda>r. []) two_draws [0, 1] plain_sources two_coordinates 1 5000
          = Completed s tops"
    by blast
  from accepted_count_bound [OF c] c show ?thesis by auto
qed

subsection \<open>C6: empty inputs\<close>

text \<open>
  With an empty catalog the endpoint takes its early return: the response is the failure
  message and carries no summary.
\<close>

theorem empty_catalog_returns_failure:
  "comprehensive_real_analysis (\<lambda>r. []) two_draws [] [] two_coordinates 100 5000
     = Failure ''Water sources could not be retrieved''
   \<and> \<not> (\<exists>s tops. comprehensive_real_analysis (\<lambda>r. []) two_draws [] [] two_coordinates 100 5000
                      = Completed s tops)"
  by (simp add: comprehensive_real_analysis_def)

text \<open>
  Claim C6, amended. With an empty catalog the endpoint returns, without raising, the
  failure response "Water sources could not be retrieved", which has no summary. With a
  non-empty catalog and an empty coordinate list (no task is submitted, so none completes)
  it returns, without raising, a completed response whose summary has \<open>total_analyzed = 0\<close>,
  \<open>productive_areas = 0\<close> and \<open>success_rate = 0\<close>, the division being guarded, and whose list
  of top areas is empty.
\<close>

theorem empty_inputs_responses:
  "comprehensive_real_analysis str_num rnd completion [] csv_rows max_areas sample_size
     = Failure ''Water sources could not be retrieved''
   \<and> (water_sources \<noteq> []
        \<and> sampled sample_size (load_coordinates_from_csv csv_rows) = []
        \<and> completion_order
              (length (sampled sample_size (load_coordinates_from_csv csv_rows))) completion
      \<longrightarrow> comprehensive_real_analysis str_num rnd completion water_sources csv_rows max_areas
            sample_size
          = Completed \<lparr>total_analyzed = 0, productive_areas = 0, success_rate = 0\<rparr> [])"
proof (intro conjI impI)
  show "comprehensive_real_analysis str_num rnd completion [] csv_rows max_areas sample_size
     = Failure ''Water sources could not be retrieved''"
    by (simp add: comprehensive_real_analysis_def)
next
  assume h: "water_sources \<noteq> []
        \<and> sampled sample_size (load_coordinates_from_csv csv_rows) = []
        \<and> completion_order
              (length (sampled sample_size (load_coordinates_from_csv csv_rows))) completion"
  then have ne: "water_sources \<noteq> []"
    and cs: "sampled sample_size (load_coordinates_from_csv csv_rows) = []"
    by blast+
  from h cs have "completion = []" by (simp add: completion_order_def)
  then have acc: "accepted_results str_num rnd water_sources
      (sampled sample_size (load_coordinates_from_csv csv_rows)) completion max_areas
        = Inr (0, [])"
    by (simp add: accepted_results_def run_tasks_def cs)
  have tops: "format_areas 1 (take 10 []) = Inr []" by simp
  from endpoint_unfold [OF ne acc tops]
  show "comprehensive_real_analysis str_num rnd completion water_sources csv_rows max_areas
            sample_size
          = Completed \<lparr>total_analyzed = 0, productive_areas = 0, success_rate = 0\<rparr> []"
    by (simp add: summarize_def)
qed

theorem empty_inputs_responses_witness:
  "plain_sources \<noteq> []
   \<and> sampled 0 (load_coordinates_from_csv []) = []
   \<and> completion_order (length (sampled 0 (load_coordinates_from_csv []))) []
   \<and> comprehensive_real_analysis (\<lambda>r. []) two_draws [] plain_sources [] 100 0
       = Completed \<lparr>total_analyzed = 0, productive_areas = 0, success_rate = 0\<rparr> []
   \<and> comprehensive_real_analysis (\<lambda>r. []) two_draws [] [] [] 100 0
       = Failure ''Water sources could not be retrieved''"
proof -
  have h: "plain_sources \<noteq> []
        \<and> sampled 0 (load_coordinates_from_csv []) = []
        \<and> completion_order (length (sampled 0 (load_coordinates_from_csv []))) []"
    by (simp add: plain_sources_nonempty no_coordinates_at_zero completion_order_def)
  from empty_inputs_responses [of "\<lambda>r. []" two_draws "[]" "[]" 100 0 plain_sources] h
  show ?thesis by blast
qed

subsection \<open>C7: the top areas\<close>

text \<open>
  Claim C7. In every completed response the accepted results are the qualifying results
  of the tasks that the loop took from the pool, in the order in which those tasks
  completed; the list \<open>top_areas\<close> is the formatting of the first \<open>min 10 n\<close> of them, where
  \<open>n\<close> is their number, and its \<open>k\<close>-th entry (counted from 0) is the formatted \<open>k\<close>-th
  accepted result with rank \<open>k + 1\<close> and that result's score. Nothing sorts by score: in
  the example, when the task of the second coordinate completes first its area, with
  score 67, holds rank 1 before the area with score 78, and when the tasks complete in the
  other order the ranks are exchanged.
\<close>

theorem top_areas_in_acceptance_order:
  "(comprehensive_real_analysis str_num rnd completion water_sources csv_rows max_areas
      sample_size = Completed s tops
    \<longrightarrow> (\<exists>processed suitable_areas.
          accepted_results str_num rnd water_sources
            (sampled sample_size (load_coordinates_from_csv csv_rows)) completion max_areas
            = Inr (processed, suitable_areas)
          \<and> processed \<le> length completion
          \<and> suitable_areas =
              qualifying (run_tasks str_num rnd water_sources
                (sampled sample_size (load_coordinates_from_csv csv_rows))
                (take processed completion))
          \<and> format_areas 1 (take 10 suitable_areas) = Inr tops
          \<and> length tops = min 10 (length suitable_areas)
          \<and> (\<forall>k < length tops.
                format_area (k + 1) (suitable_areas ! k) = Inr (tops ! k)
                \<and> area_rank (tops ! k) = k + 1
                \<and> area_score (tops ! k) = suitability_score (suitable_areas ! k))))
   \<and> (\<exists>s d1 d2.
         comprehensive_real_analysis str_num two_draws [1, 0] plain_sources two_coordinates 100 5000
           = Completed s [d1, d2]
         \<and> completion_order
              (length (sampled 5000 (load_coordinates_from_csv two_coordinates))) [1, 0]
         \<and> area_rank d1 = 1 \<and> area_rank d2 = 2 \<and> area_score d1 = 67 \<and> area_score d2 = 78
         \<and> area_score d1 < area_score d2)
   \<and> (\<exists>s d1 d2.
         comprehensive_real_analysis str_num two_draws [0, 1] plain_sources two_coordinates 100 5000
           = Completed s [d1, d2]
         \<and> completion_order
              (length (sampled 5000 (load_coordinates_from_csv two_coordinates))) [0, 1]
         \<and> area_rank d1 = 1 \<and> area_rank d2 = 2 \<and> area_score d1 = 78 \<and> area_score d2 = 67)"
proof (intro conjI impI)
  assume c: "comprehensive_real_analysis str_num rnd completion water_sources csv_rows max_areas
      sample_size = Completed s tops"
  from endpoint_completed(2) [OF c] obtain p suitable where
    acc: "accepted_results str_num rnd water_sources
            (sampled sample_size (load_coordinates_from_csv csv_rows)) completion max_areas
            = Inr (p, suitable)"
    and tops: "format_areas 1 (take 10 suitable) = Inr tops"
    by blast
  note ord = accepted_in_completion_order [OF acc]
  from format_areas_props [OF tops] have len: "length tops = length (take 10 suitable)"
    and each: "\<forall>k < length (take 10 suitable).
                 format_area (1 + k) (take 10 suitable ! k) = Inr (tops ! k)"
    by blast+
  have l: "length tops = min 10 (length suitable)" using len by simp
  have "\<forall>k < length tops.
                format_area (k + 1) (suitable ! k) = Inr (tops ! k)
                \<and> area_rank (tops ! k) = k + 1
                \<and> area_score (tops ! k) = suitability_score (suitable ! k)"
  proof (intro allI impI)
    fix k assume k: "k < length tops"
    with len have k': "k < length (take 10 suitable)" by simp
    with each have "format_area (1 + k) (take 10 suitable ! k) = Inr (tops ! k)" by blast
    moreover from k' have "take 10 suitable ! k = suitable ! k" by simp
    ultimately have f: "format_area (k + 1) (suitable ! k) = Inr (tops ! k)" by simp
    from f format_area_fields(1,2) [OF f]
    show "format_area (k + 1) (suitable ! k) = Inr (tops ! k)
                \<and> area_rank (tops ! k) = k + 1
                \<and> area_score (tops ! k) = suitability_score (suitable ! k)"
      by blast
  qed
  with acc l ord tops show "\<exists>processed suitable_areas.
          accepted_results str_num rnd water_sources
            (sampled sample_size (load_coordinates_from_csv csv_rows)) completion max_areas
            = Inr (processed, suitable_areas)
          \<and> processed \<le> length completion
          \<and> suitable_areas =
              qualifying (run_tasks str_num rnd water_sources
                (sampled sample_size (load_coordinates_from_csv csv_rows))
                (take processed completion))
          \<and> format_areas 1 (take 10 suitable_areas) = Inr tops
          \<and> length tops = min 10 (length suitable_areas)
          \<and> (\<forall>k < length tops.
                format_area (k + 1) (suitable_areas ! k) = Inr (tops ! k)
                \<and> area_rank (tops ! k) = k + 1
                \<and> area_score (tops ! k) = suitability_score (suitable_areas ! k))"
    by blast
next
  from late_better_run [of str_num] obtain s d1 d2 where
    "comprehensive_real_analysis str_num two_draws [1, 0] plain_sources two_coordinates 100 5000
       = Completed s [d1, d2]"
    "area_rank d1 = 1" "area_score d1 = 67" "area_rank d2 = 2" "area_score d2 = 78"
    by blast
  then show "\<exists>s d1 d2.
         comprehensive_real_analysis str_num two_draws [1, 0] plain_sources two_coordinates 100 5000
           = Completed s [d1, d2]
         \<and> completion_order
              (length (sampled 5000 (load_coordinates_from_csv two_coordinates))) [1, 0]
         \<and> area_rank d1 = 1 \<and> area_rank d2 = 2 \<and> area_score d1 = 67 \<and> area_score d2 = 78
         \<and> area_score d1 < area_score d2"
    using two_completion_orders(1) by (auto simp: two_coordinates_sampled)
next
  from early_better_run [of str_num] obtain s d1 d2 where
    "comprehensive_real_analysis str_num two_draws [0, 1] plain_sources two_coordinates 100 5000
       = Completed s [d1, d2]"
    "area_rank d1 = 1" "area_score d1 = 78" "area_rank d2 = 2" "area_score d2 = 67"
    by blast
  then show "\<exists>s d1 d2.
         comprehensive_real_analysis str_num two_draws [0, 1] plain_sources two_coordinates 100 5000
           = Completed s [d1, d2]
         \<and> completion_order
              (length (sampled 5000 (load_coordinates_from_csv two_coordinates))) [0, 1]
         \<and> area_rank d1 = 1 \<and> area_rank d2 = 2 \<and> area_score d1 = 78 \<and> area_score d2 = 67"
    using two_completion_orders(2) by (auto simp: two_coordinates_sampled)
qed

theorem top_areas_in_acceptance_order_witness:
  "\<exists>s tops processed suitable_areas.
     comprehensive_real_analysis (\<lambda>r. []) two_draws [0, 1] plain_sources two_coordinates 100 5000
       = Completed s tops
     \<and> accepted_results (\<lambda>r. []) two_draws plain_sources
            (sampled 5000 (load_coordinates_from_csv two_coordinates)) [0, 1] 100
            = Inr (processed, suitable_areas)
     \<and> suitable_areas =
          qualifying (run_tasks (\<lambda>r. []) two_draws plain_sources
            (sampled 5000 (load_coordinates_from_csv two_coordinates)) (take processed [0, 1]))
     \<and> length tops = min 10 (length suitable_areas)
     \<and> (\<forall>k < length tops.
                format_area (k + 1) (suitable_areas ! k) = Inr (tops ! k)
                \<and> area_rank (tops ! k) = k + 1
                \<and> area_score (tops ! k) = suitability_score (suitable_areas ! k))"
proof -
  from endpoint_shape [OF plain_sources_nonempty, of "\<lambda>r. []" two_draws 5000 two_coordinates
      "[0, 1]" 100]
  obtain s tops where
    c: "comprehensive_real_analysis (\<lambda>r. []) two_draws [0, 1] plain_sources two_coordinates 100 5000
          = Completed s tops"
    by blast
  from top_areas_in_acceptance_order [of "\<lambda>r. []" two_draws "[0, 1]" plain_sources
      two_coordinates 100 5000 s tops] c
  show ?thesis by blast
qed

subsection \<open>C8: the cache round trip\<close>

text \<open>
  Claim C8. When a call of the loader finds no usable cache, gets the features from the
  service and writes them to the cache file, the file holds the serialisation of the list
  that the call returns; parsing it gives that list back; and every later call, whatever
  the service replies, returns the identical list, in the same order and with the same
  five fields \<open>lat\<close>, \<open>lon\<close>, \<open>name\<close>, \<open>type\<close> and \<open>source\<close> in each feature, and leaves the
  cache file as it is. Values are compared by their structure, so that a NaN is reloaded
  as a NaN.
\<close>

theorem cache_round_trip:
  assumes "read_cache disk = None"
    and "get_all_water_sources_from_osm Written (Reply 200 (Elements elements)) disk
           = (water_sources, disk')"
  shows "water_sources = PList (concat (map features_of elements))
     \<and> disk' = Some (Text (to_json water_sources))
     \<and> from_json (to_json water_sources) = water_sources
     \<and> (\<forall>outcome net.
           get_all_water_sources_from_osm outcome net disk' = (water_sources, disk'))
     \<and> (\<forall>f \<in> set (concat (map features_of elements)). \<exists>lat lon name ty.
           f = PDict [(''lat'', lat), (''lon'', lon), (''name'', name), (''type'', PStr ty),
                      (''source'', PStr ''OpenStreetMap'')])"
proof -
  from assms have ws: "water_sources = PList (concat (map features_of elements))"
    and d: "disk' = Some (Text (to_json water_sources))"
    by (auto simp: get_all_water_sources_from_osm_def write_cache_def Let_def)
  from features_well_formed [of elements] ws have "well_formed water_sources" by simp
  then have rt: "from_json (to_json water_sources) = water_sources" by (rule json_round_trip)
  have len: "has_len water_sources" by (simp add: ws has_len_def)
  from rt len have "read_cache disk' = Some water_sources"
    by (simp add: read_cache_def d Let_def)
  then have again: "\<forall>outcome net.
           get_all_water_sources_from_osm outcome net disk' = (water_sources, disk')"
    by (simp add: get_all_water_sources_from_osm_def)
  have shape: "\<forall>f \<in> set (concat (map features_of elements)). \<exists>lat lon name ty.
           f = PDict [(''lat'', lat), (''lon'', lon), (''name'', name), (''type'', PStr ty),
                      (''source'', PStr ''OpenStreetMap'')]"
  proof
    fix f assume "f \<in> set (concat (map features_of elements))"
    then obtain e where "f \<in> set (features_of e)" by auto
    from feature_shape [OF this] show "\<exists>lat lon name ty.
           f = PDict [(''lat'', lat), (''lon'', lon), (''name'', name), (''type'', PStr ty),
                      (''source'', PStr ''OpenStreetMap'')]" by blast
  qed
  from ws d rt again shape show ?thesis by (intro conjI)
qed

theorem cache_round_trip_witness:
  "read_cache None = None
   \<and> (\<exists>water_sources disk'.
         get_all_water_sources_from_osm Written (Reply 200 (Elements river_elements)) None
           = (water_sources, disk')
         \<and> water_sources = PList (concat (map features_of river_elements))
         \<and> disk' = Some (Text (to_json water_sources))
         \<and> get_all_water_sources_from_osm Broken_Off NoReply disk' = (water_sources, disk'))
   \<and> length (concat (map features_of river_elements)) = 2"
proof -
  have miss: "read_cache None = None" by (simp add: read_cache_def)
  obtain water_sources disk' where
    c: "get_all_water_sources_from_osm Written (Reply 200 (Elements river_elements)) None
           = (water_sources, disk')"
    by (cases "get_all_water_sources_from_osm Written (Reply 200 (Elements river_elements)) None")
  from cache_round_trip [OF miss c] c miss river_features show ?thesis by auto
qed

subsection \<open>C9: the worked example\<close>

text \<open>
  The row with exactly the seven attributes of the worked example does not get a score:
  the water criterion awards its 25 points and then reads \<^verbatim>\<open>row['nearest_water_name']\<close>
  for the detail line, which raises \<^verbatim>\<open>KeyError\<close>.
\<close>

theorem listed_row_raises_key_error:
  "calculate_comprehensive_suitability (\<lambda>r. []) listed_row = Inl (KeyError ''nearest_water_name'')
   \<and> \<not> (\<exists>reasons detailed_reason.
          calculate_comprehensive_suitability (\<lambda>r. []) listed_row
            = Inr (93, reasons, detailed_reason))"
proof -
  have "calculate_comprehensive_suitability (\<lambda>r. []) listed_row
          = Inl (KeyError ''nearest_water_name'')"
    by (simp add: calculate_comprehensive_suitability_def criteria_def criterion_defs
        listed_row_def getitem_def as_number_def bind_result_def)
  then show ?thesis by simp
qed

text \<open>
  Claim C9, amended. Every row that has the seven attribute values of the worked example
  (water distance 3, slope 2, elevation 100, soil productivity "high", precipitation 600,
  sunshine 2000, landcover "Farmland") and also carries the keys \<^verbatim>\<open>nearest_water_name\<close>,
  \<^verbatim>\<open>soil_type\<close> and \<^verbatim>\<open>soil_ph\<close> gets the score 93 with all seven reasons, and the
  category of 93 is "HIGHLY PRODUCTIVE".
\<close>

theorem worked_example_score:
  assumes "row ''water_distance_km'' = Some (Num 3)" "row ''slope_percent'' = Some (Num 2)"
    "row ''elevation_m'' = Some (Num 100)" "row ''soil_productivity'' = Some (Str ''high'')"
    "row ''annual_precipitation_mm'' = Some (Num 600)" "row ''sunshine_hours'' = Some (Num 2000)"
    "row ''landcover_type'' = Some (Str ''Farmland'')"
    "row ''nearest_water_name'' = Some n" "row ''soil_type'' = Some ty" "row ''soil_ph'' = Some ph"
  shows "(\<exists>detailed_reason. calculate_comprehensive_suitability str_num row =
       Inr (93, ''very close to water, low slope, low elevation, fertile soil, ideal precipitation, ideal sunshine, existing agricultural land'', detailed_reason))
     \<and> (93::int) = 25 + 20 + 15 + 10 + 8 + 7 + 8
     \<and> categorize_suitability 93 = ''HIGHLY PRODUCTIVE''"
  using assms
  by (simp add: calculate_comprehensive_suitability_def criteria_def criterion_defs
      landcover_bonus_def landcover_keywords_def py_str_def lower_Farmland
      getitem_def as_number_def bind_result_def categorize_suitability_def)

theorem worked_example_score_witness:
  "farm_row ''nearest_water_name'' = Some (Str ''Unnamed'')
   \<and> farm_row ''water_distance_km'' = Some (Num 3)
   \<and> (\<exists>reasons detailed_reason. calculate_comprehensive_suitability (\<lambda>r. []) farm_row =
        Inr (93, reasons, detailed_reason))
   \<and> categorize_suitability 93 = ''HIGHLY PRODUCTIVE''"
proof -
  have k: "farm_row ''water_distance_km'' = Some (Num 3)"
    "farm_row ''slope_percent'' = Some (Num 2)"
    "farm_row ''elevation_m'' = Some (Num 100)"
    "farm_row ''soil_productivity'' = Some (Str ''high'')"
    "farm_row ''annual_precipitation_mm'' = Some (Num 600)"
    "farm_row ''sunshine_hours'' = Some (Num 2000)"
    "farm_row ''landcover_type'' = Some (Str ''Farmland'')"
    "farm_row ''nearest_water_name'' = Some (Str ''Unnamed'')"
    "farm_row ''soil_type'' = Some (Str ''Loamy'')"
    "farm_row ''soil_ph'' = Some (Num 6.8)"
    by (simp_all add: farm_row_def listed_row_def)
  from worked_example_score [OF k, of "\<lambda>r. []"] k(1) k(8) show ?thesis by blast
qed

subsection \<open>C10: no landcover bonus through the endpoint\<close>

text \<open>
  Claim C10. In every run of the endpoint each task is submitted with an empty
  \<open>original_data\<close>, so each analysis has the landcover type "agriculture"; none of the four
  keywords is a substring of it; hence each analysis has a score of at most 85, its
  reasons are joined from reasons of the six other criteria, among which "existing
  agricultural land" is not, and that text is not a substring of its reasons; and every
  score among the top areas of a completed response is at most 85.
\<close>

theorem endpoint_never_awards_landcover_bonus:
  assumes "completion_order
             (length (sampled sample_size (load_coordinates_from_csv csv_rows))) completion"
  shows "(\<forall>k \<in> set landcover_keywords. \<not> contains ''agriculture'' k)
     \<and> ''existing agricultural land'' \<notin> set criterion_reasons
     \<and> (\<forall>a. Inr (Some a) \<in> set (run_tasks str_num rnd water_sources
                  (sampled sample_size (load_coordinates_from_csv csv_rows)) completion)
          \<longrightarrow> enhanced_row a ''landcover_type'' = Some (Str ''agriculture'')
              \<and> suitability_score a \<le> 85
              \<and> (\<exists>rs. suitability_reasons a = join '', '' rs
                      \<and> set rs \<subseteq> set criterion_reasons)
              \<and> \<not> contains (suitability_reasons a) ''existing agricultural land'')
     \<and> (\<forall>s tops. comprehensive_real_analysis str_num rnd completion water_sources csv_rows
                    max_areas sample_size = Completed s tops
          \<longrightarrow> (\<forall>d \<in> set tops. area_score d \<le> 85))"
proof (intro conjI allI impI ballI)
  fix k assume "k \<in> set landcover_keywords"
  with agriculture_no_keyword show "\<not> contains ''agriculture'' k" by blast
next
  show "''existing agricultural land'' \<notin> set criterion_reasons"
    by (rule bonus_reason_not_criterion)
next
  fix a assume a: "Inr (Some a) \<in> set (run_tasks str_num rnd water_sources
                  (sampled sample_size (load_coordinates_from_csv csv_rows)) completion)"
  from task_without_bonus(1) [OF assms a]
  show "enhanced_row a ''landcover_type'' = Some (Str ''agriculture'')" .
  from task_without_bonus(2) [OF assms a] show "suitability_score a \<le> 85" .
  from task_without_bonus(3) [OF assms a]
  show "\<exists>rs. suitability_reasons a = join '', '' rs \<and> set rs \<subseteq> set criterion_reasons" .
  from task_without_bonus(4) [OF assms a]
  show "\<not> contains (suitability_reasons a) ''existing agricultural land''" .
next
  fix s tops d
  assume c: "comprehensive_real_analysis str_num rnd completion water_sources csv_rows
                    max_areas sample_size = Completed s tops"
    and d: "d \<in> set tops"
  from top_areas_origin [OF c d] obtain a i where
    a: "Inr (Some a) \<in> set (run_tasks str_num rnd water_sources
                  (sampled sample_size (load_coordinates_from_csv csv_rows)) completion)"
    and f: "format_area i a = Inr d"
    by blast
  from format_area_fields(2) [OF f] task_without_bonus(2) [OF assms a]
  show "area_score d \<le> 85" by simp
qed

theorem endpoint_never_awards_landcover_bonus_witness:
  "completion_order (length (sampled 5000 (load_coordinates_from_csv two_coordinates))) [1, 0]
   \<and> (\<exists>a. Inr (Some a) \<in> set (run_tasks (\<lambda>r. []) two_draws plain_sources
                  (sampled 5000 (load_coordinates_from_csv two_coordinates)) [1, 0])
          \<and> suitability_score a = 78
          \<and> \<not> contains (suitability_reasons a) ''existing agricultural land'')
   \<and> (\<exists>s tops. comprehensive_real_analysis (\<lambda>r. []) two_draws [1, 0] plain_sources
                  two_coordinates 100 5000 = Completed s tops
               \<and> tops \<noteq> [] \<and> (\<forall>d \<in> set tops. area_score d \<le> 85))"
proof -
  have o: "completion_order (length (sampled 5000 (load_coordinates_from_csv two_coordinates)))
             [1, 0]"
    using two_completion_orders(1) by (simp add: two_coordinates_sampled)
  note t = endpoint_never_awards_landcover_bonus [OF o, of "\<lambda>r. []" two_draws plain_sources 100]
  obtain a where a: "analyze_coordinate_with_real_water (\<lambda>r. []) coast_draws (36, 30, Map.empty)
      plain_sources = Inr (Some a)" and sa: "suitability_score a = 78"
    using coast_analysis by blast
  obtain b where b: "analyze_coordinate_with_real_water (\<lambda>r. []) plateau_draws (38, 30, Map.empty)
      plain_sources = Inr (Some b)"
    using plateau_analysis by blast
  have m: "Inr (Some a) \<in> set (run_tasks (\<lambda>r. []) two_draws plain_sources
                  (sampled 5000 (load_coordinates_from_csv two_coordinates)) [1, 0])"
    unfolding two_coordinates_sampled two_tasks(1) [OF a b] by simp
  with t have "\<not> contains (suitability_reasons a) ''existing agricultural land''" by blast
  with m sa have 1: "\<exists>a. Inr (Some a) \<in> set (run_tasks (\<lambda>r. []) two_draws plain_sources
                  (sampled 5000 (load_coordinates_from_csv two_coordinates)) [1, 0])
          \<and> suitability_score a = 78
          \<and> \<not> contains (suitability_reasons a) ''existing agricultural land''"
    by blast
  from late_better_run [of "\<lambda>r. []"] obtain s d1 d2 where
    c: "comprehensive_real_analysis (\<lambda>r. []) two_draws [1, 0] plain_sources two_coordinates
          100 5000 = Completed s [d1, d2]"
    by blast
  from t c have "\<forall>d \<in> set [d1, d2]. area_score d \<le> 85" by blast
  with c have 2: "\<exists>s tops. comprehensive_real_analysis (\<lambda>r. []) two_draws [1, 0] plain_sources
                  two_coordinates 100 5000 = Completed s tops
               \<and> tops \<noteq> [] \<and> (\<forall>d \<in> set tops. area_score d \<le> 85)"
    by blast
  from o 1 2 show ?thesis by (intro conjI)
qed

end
